theory Spec2Isabelle
  imports Main "HOL-Library.Sublist" "HOL-Library.Word"
begin

section \<open>The tutor backend: request handler and stream relay of \<^verbatim>\<open>main.py\<close>\<close>

text \<open>
  The development embeds the \<^verbatim>\<open>/api/ask\<close> handler \<^verbatim>\<open>ask_question\<close>, its helper
  \<^verbatim>\<open>upload_file_to_gemini\<close> and the generator \<^verbatim>\<open>stream\<close>.

  \<^item> Python text is a \<^typ>\<open>string\<close>; a character beyond ASCII stands as its UTF-8 bytes.
    On text that is all ASCII, \<^verbatim>\<open>str.strip\<close> and \<^verbatim>\<open>str.upper\<close> are the functions written out
    below; on any other text they are the library's, fields of the environment, so that
    nothing is said of a board, a question or a subject beyond ASCII but what the library
    makes of it. \<^verbatim>\<open>x in s\<close> on text is \<^const>\<open>sublist\<close>.
  \<^item> The payload is the JSON object of the request. The fields the specification types as
    strings are strings, absent or null (\<^typ>\<open>string option\<close>, \<^term>\<open>None\<close> for absent and for
    null); \<^verbatim>\<open>files\<close> is a list of objects whose \<^verbatim>\<open>name\<close>, \<^verbatim>\<open>mimeType\<close> and \<^verbatim>\<open>base64\<close> are
    strings or absent. The model tag is any JSON value.
  \<^item> The remote model service and the library calls whose results the handler only passes
    on (\<^verbatim>\<open>base64.b64decode\<close>, \<^verbatim>\<open>bytes.decode\<close>, \<^verbatim>\<open>json.dumps\<close>, \<^verbatim>\<open>Part.from_bytes\<close>,
    \<^verbatim>\<open>Part.from_uri\<close>) are the fields of an environment record: every theorem holds for
    every behaviour of theirs. The service has a state of its own, of type \<^typ>\<open>'w\<close>, threaded
    through the calls, and the handler's calls to it are logged in order.
  \<^item> An exception is a value: a call that may raise returns a sum, with \<open>Inl\<close> for the exception.
\<close>

subsection \<open>Text\<close>

definition NL :: char where
  "NL = CHR 0x0A"

text \<open>Text with no character beyond ASCII.\<close>

definition is_ascii :: "string \<Rightarrow> bool" where
  "is_ascii s = list_all (\<lambda>c. \<not> digit7 c) s"

text \<open>The characters \<^verbatim>\<open>str.strip()\<close> removes, within ASCII: tab, line feed, vertical tab,
  form feed, carriage return, the four separators \<^verbatim>\<open>0x1C\<close> to \<^verbatim>\<open>0x1F\<close>, and space.\<close>

definition is_space :: "char \<Rightarrow> bool" where
  "is_space c = (c \<in> set [CHR 0x09, CHR 0x0A, CHR 0x0B, CHR 0x0C, CHR 0x0D,
                           CHR 0x1C, CHR 0x1D, CHR 0x1E, CHR 0x1F, CHR 0x20])"

definition ascii_strip :: "string \<Rightarrow> string" where
  "ascii_strip s = rev (dropWhile is_space (rev (dropWhile is_space s)))"

text \<open>\<^verbatim>\<open>str.upper()\<close> and \<^verbatim>\<open>str.lower()\<close> map the 26 letters and leave every other ASCII
  character as it is.\<close>

definition upper_char :: "char \<Rightarrow> char" where
  "upper_char c =
     (case map_of (zip ''abcdefghijklmnopqrstuvwxyz'' ''ABCDEFGHIJKLMNOPQRSTUVWXYZ'') c of
        Some u \<Rightarrow> u | None \<Rightarrow> c)"

definition lower_char :: "char \<Rightarrow> char" where
  "lower_char c =
     (case map_of (zip ''ABCDEFGHIJKLMNOPQRSTUVWXYZ'' ''abcdefghijklmnopqrstuvwxyz'') c of
        Some l \<Rightarrow> l | None \<Rightarrow> c)"

definition ascii_upper :: "string \<Rightarrow> string" where
  "ascii_upper s = map upper_char s"

text \<open>\<^verbatim>\<open>str.lower()\<close>, which the code uses only to test a text against \<^verbatim>\<open>t2\<close> and to look
  for \<^verbatim>\<open>quota\<close> and \<^verbatim>\<open>api key\<close> in it. No character beyond ASCII lowercases to \<^verbatim>\<open>t\<close> or to
  \<^verbatim>\<open>2\<close>, so a text is \<^verbatim>\<open>t2\<close> once lowercased exactly when it is \<^verbatim>\<open>t2\<close> or \<^verbatim>\<open>T2\<close>, here as in
  the library.\<close>

definition lower :: "string \<Rightarrow> string" where
  "lower s = map lower_char s"

text \<open>\<^verbatim>\<open>sep.join(xs)\<close>.\<close>

fun join :: "string \<Rightarrow> string list \<Rightarrow> string" where
  "join sep [] = []"
| "join sep [x] = x"
| "join sep (x # y # ys) = x @ sep @ join sep (y # ys)"

text \<open>\<^verbatim>\<open>v or d\<close> for a text \<open>v\<close> that may be \<^verbatim>\<open>None\<close>, as a field read with \<^verbatim>\<open>payload.get\<close> or
  the \<^verbatim>\<open>text\<close> of a chunk: an absent, null or empty value gives the default.\<close>

definition or_default :: "string option \<Rightarrow> string \<Rightarrow> string" where
  "or_default v d = (case v of None \<Rightarrow> d | Some s \<Rightarrow> if s = [] then d else s)"

subsection \<open>Data\<close>

type_synonym bytes = "8 word list"

datatype py_exception = Exception (str: string)

text \<open>What the handler can raise: the two \<^verbatim>\<open>HTTPException\<close>s it raises itself, and the
  \<^verbatim>\<open>AttributeError\<close> of a method call on a value that is no text, which the framework
  answers with status 500.\<close>

datatype handler_error =
    HTTPException (status_code: nat) (detail: string)
  | AttributeError string

text \<open>A JSON value, with Python's truth value and the name of its Python type. A number
  stands here when it is integral.\<close>

datatype json =
    JNull
  | JBool bool
  | JInt int
  | JString string
  | JArray "json list"
  | JObject "(string \<times> json) list"

fun truthy :: "json \<Rightarrow> bool" where
  "truthy JNull = False"
| "truthy (JBool b) = b"
| "truthy (JInt n) = (n \<noteq> 0)"
| "truthy (JString s) = (s \<noteq> [])"
| "truthy (JArray xs) = (xs \<noteq> [])"
| "truthy (JObject kvs) = (kvs \<noteq> [])"

fun type_name :: "json \<Rightarrow> string" where
  "type_name JNull = ''NoneType''"
| "type_name (JBool b) = ''bool''"
| "type_name (JInt n) = ''int''"
| "type_name (JString s) = ''str''"
| "type_name (JArray xs) = ''list''"
| "type_name (JObject kvs) = ''dict''"

text \<open>\<^verbatim>\<open>payload.get(k) or d\<close> on a field that may hold any value, and \<^verbatim>\<open>.lower()\<close> on
  the result.\<close>

definition or_value :: "json option \<Rightarrow> json \<Rightarrow> json" where
  "or_value v d = (case v of None \<Rightarrow> d | Some j \<Rightarrow> if truthy j then j else d)"

definition call_lower :: "json \<Rightarrow> handler_error + string" where
  "call_lower j =
     (case j of
        JString s \<Rightarrow> Inr (lower s)
      | _ \<Rightarrow> Inl (AttributeError ([CHR 0x27] @ type_name j @ [CHR 0x27] @
                 '' object has no attribute '' @ [CHR 0x27] @ ''lower'' @ [CHR 0x27])))"

text \<open>One element of \<^verbatim>\<open>files\<close>: \<^verbatim>\<open>{name, mimeType, base64}\<close>, each key possibly absent.\<close>

record attachment =
  att_name :: "string option"
  mimeType :: "string option"
  base64 :: "string option"

record payload =
  p_board :: "string option"
  p_class_level :: "string option"
  p_subject :: "string option"
  p_chapter :: "string option"
  p_question :: "string option"
  p_model :: "json option"
  p_files :: "attachment list option"

text \<open>\<^verbatim>\<open>types.Part\<close>: a reference to an uploaded file, inline bytes, or text.\<close>

datatype part =
    Part_file_data string string
  | Part_inline bytes string
  | Part_from_text string

datatype file_state = STATE_UNSPECIFIED | PROCESSING | ACTIVE | FAILED

record file_obj =
  f_state :: file_state
  f_uri :: string
  f_name :: string

text \<open>What one call of \<^verbatim>\<open>next(response_stream, None)\<close> does: it returns a chunk, whose
  \<^verbatim>\<open>text\<close> may be \<^verbatim>\<open>None\<close>; it returns \<^verbatim>\<open>None\<close> because the iterator is exhausted; or it
  raises. A response stream is the sequence of these outcomes, by the number of the pull.\<close>

datatype pull = Chunk "string option" | Exhausted | Raises py_exception

type_synonym response_stream = "nat \<Rightarrow> pull"

text \<open>The log of a request: the calls to the service, and a mark \<open>Acquired\<close> at each return
  of \<^verbatim>\<open>upload_file_to_gemini\<close>, with the name of the remote file it returns.\<close>

datatype call =
    Upload bytes string string
  | Get string
  | Acquired string
  | Generate string "part list"
  | Delete string

record 'w env =
  str_strip :: "string \<Rightarrow> string"
  str_upper :: "string \<Rightarrow> string"
  b64decode :: "string \<Rightarrow> py_exception + bytes"
  decode_utf8_replace :: "bytes \<Rightarrow> string"
  json_dumps :: "string \<Rightarrow> string"
  from_bytes_raises :: "bytes \<Rightarrow> string \<Rightarrow> py_exception option"
  from_uri_raises :: "string \<Rightarrow> string \<Rightarrow> py_exception option"
  files_upload :: "bytes \<Rightarrow> string \<Rightarrow> string \<Rightarrow> 'w \<Rightarrow> (py_exception + file_obj) \<times> 'w"
  files_get :: "string \<Rightarrow> 'w \<Rightarrow> (py_exception + file_obj) \<times> 'w"
  files_delete :: "string \<Rightarrow> 'w \<Rightarrow> (py_exception + unit) \<times> 'w"
  generate_content_stream :: "string \<Rightarrow> part list \<Rightarrow> 'w \<Rightarrow> (py_exception + response_stream) \<times> 'w"

text \<open>The state a request runs in: the state of the remote service and the log of the calls
  made to it so far.\<close>

type_synonym 'w st = "'w \<times> call list"

text \<open>\<^verbatim>\<open>str.strip()\<close> and \<^verbatim>\<open>str.upper()\<close>: written out on ASCII text, the library's beyond.\<close>

definition strip :: "'w env \<Rightarrow> string \<Rightarrow> string" where
  "strip E s = (if is_ascii s then ascii_strip s else str_strip E s)"

definition upper :: "'w env \<Rightarrow> string \<Rightarrow> string" where
  "upper E s = (if is_ascii s then ascii_upper s else str_upper E s)"

subsection \<open>Configuration\<close>

definition ALLOWED_BOARDS :: "string set" where
  "ALLOWED_BOARDS = {''ICSE'', ''CBSE'', ''SSLC''}"

definition SUPPORTED_MIME_TYPES :: "string set" where
  "SUPPORTED_MIME_TYPES = {''image/jpeg'', ''image/png'', ''image/gif'', ''image/webp'',
     ''application/pdf'', ''text/plain''}"

subsection \<open>The prompt template\<close>

text \<open>The f-string of \<^verbatim>\<open>ask_question\<close>, cut at its placeholders: \<open>tpl_0\<close> is the text before
  the first placeholder, \<open>tpl_16\<close> the text after the last.\<close>

definition tpl_0 :: string where
  "tpl_0 = [NL] @ ''You are an expert ''"

definition tpl_1 :: string where
  "tpl_1 = '' Class ''"

definition tpl_2 :: string where
  "tpl_2 = '' teacher.'' @ [NL] @ [NL] @ ''Board: ''"

definition tpl_3 :: string where
  "tpl_3 = [NL] @ ''Subject: ''"

definition tpl_4 :: string where
  "tpl_4 = [NL] @ ''Chapter: ''"

definition tpl_5 :: string where
  "tpl_5 = [NL] @ [NL] @ ''A student from Class ''"

definition tpl_6 :: string where
  "tpl_6 = '' has asked the following question:'' @ [NL] @ [NL] @ [CHR 0x22] @ [CHR 0x22] @
    [CHR 0x22]"

definition tpl_7 :: string where
  "tpl_7 = [CHR 0x22] @ [CHR 0x22] @ [CHR 0x22] @ [NL] @ [NL] @
    ''Your task is to answer strictly according to the ''"

definition tpl_8 :: string where
  "tpl_8 = '' syllabus and exam pattern.'' @ [NL] @ [NL] @ ''REQUIREMENTS:'' @ [NL] @
    ''- Explain the concept clearly and correctly.'' @ [NL] @ ''- Use only ''"

definition tpl_9 :: string where
  "tpl_9 = '' Class ''"

definition tpl_10 :: string where
  "tpl_10 = '' level methods.'' @ [NL] @
    ''- Show all important steps and working where required (Maths, Physics, Chemistry).'' @
    [NL] @ ''- Keep the explanation concise but conceptually strong.'' @ [NL] @
    ''- Mention a common mistake ONLY if it is relevant.'' @ [NL] @
    ''- Focus on how answers are expected in board exams.'' @ [NL] @ [NL] @
    ''STRICT ANSWERING RULES (VERY IMPORTANT):'' @ [NL] @ [NL] @ ''1. Use PLAIN TEXT ONLY.'' @
    [NL] @ ''   - NO Markdown, NO HTML, NO LaTeX, NO emojis'' @ [NL] @ [NL] @
    ''2. Allowed mathematical symbols ONLY:'' @ [NL] @ ''   - Degrees: 30'' @
    [CHR 0xC2, CHR 0xB0] @ [NL] @ ''   - Fractions: 1/2'' @ [NL] @ ''   - Equals sign: ='' @
    [NL] @ ''   - Plus or minus: + '' @ [CHR 0xE2, CHR 0x88, CHR 0x92] @ [NL] @
    ''   - Square root: '' @ [CHR 0xE2, CHR 0x88, CHR 0x9A] @ [NL] @ [NL] @
    ''3. Write mathematics in NORMAL SCHOOL STYLE.'' @ [NL] @ ''   Example: sin 30'' @
    [CHR 0xC2, CHR 0xB0] @ '' = 1/2'' @ [NL] @ [NL] @ ''4. Keep the answer:'' @ [NL] @
    ''   - SHORT'' @ [NL] @ ''   - CLEAR'' @ [NL] @ ''   - CONCEPTUALLY DEEP'' @ [NL] @
    ''   - STRICTLY exam-oriented'' @ [NL] @ [NL] @ ''5. IMPORTANT HIGHLIGHTING RULES:'' @
    [NL] @ ''   - Highlight important formulas, definitions, or final answers'' @ [NL] @
    ''   - Use ONLY SINGLE ASTERISKS like *this*'' @ [NL] @
    ''   - NEVER use double asterisks **'' @ [NL] @
    ''   - The MAIN FINAL RESULT must be inside single asterisks'' @ [NL] @ [NL] @
    ''6. Language must be:'' @ [NL] @ ''   - Simple'' @ [NL] @ ''   - Calm'' @ [NL] @
    ''   - Clear'' @ [NL] @ ''   - Suitable for Class ''"

definition tpl_11 :: string where
  "tpl_11 = '' students'' @ [NL] @ [NL] @
    ''7. While giving output, be friendly and conversational with students.'' @ [NL] @ [NL] @
    ''8. BOARD ALIGNMENT: Answer ONLY what is officially taught at Class ''"

definition tpl_12 :: string where
  "tpl_12 = '' level for ''"

definition tpl_13 :: string where
  "tpl_13 = ''.'' @ [NL] @ [NL] @
    ''9. EXAM ANSWER EXPECTATION: Frame the answer exactly how a board examiner expects it.'' @
    [NL] @ [NL] @
    ''10. STEP MARKING AWARENESS: Write steps in the correct logical order used for marking.'' @
    [NL] @ [NL] @
    ''11. DEFINITIONS RULE: Start with the exact definition in simple board language.'' @ [NL] @
    [NL] @ ''12. FILE / IMAGE RULES:'' @ [NL] @
    ''    - If an image is attached, carefully read and analyse it'' @ [NL] @ ''    - If it'' @
    [CHR 0x27] @ ''s a question paper, solve ALL visible questions step by step'' @ [NL] @
    ''    - If it'' @ [CHR 0x27] @
    ''s a diagram, explain what it shows in exam-appropriate language'' @ [NL] @
    ''    - If it'' @ [CHR 0x27] @
    ''s a PDF, treat it as a document and answer based on its content'' @ [NL] @
    ''    - Always relate file content back to ''"

definition tpl_14 :: string where
  "tpl_14 = '' Class ''"

definition tpl_15 :: string where
  "tpl_15 = '' ''"

definition tpl_16 :: string where
  "tpl_16 = '' syllabus'' @ [NL]"

definition prompt_template :: "string \<Rightarrow> string \<Rightarrow> string \<Rightarrow> string \<Rightarrow> string \<Rightarrow> string" where
  "prompt_template board class_level subject chapter question =
     tpl_0 @ board @ tpl_1 @ class_level @ tpl_2 @ board @ tpl_3 @ subject @ tpl_4 @ chapter @
     tpl_5 @ class_level @ tpl_6 @ question @ tpl_7 @ board @ tpl_8 @ board @ tpl_9 @
     class_level @ tpl_10 @ class_level @ tpl_11 @ class_level @ tpl_12 @ board @ tpl_13 @
     board @ tpl_14 @ class_level @ tpl_15 @ subject @ tpl_16"


subsection \<open>Calls to the remote service\<close>

text \<open>Each call runs the service on its state and appends itself to the log.\<close>

definition do_upload ::
  "'w env \<Rightarrow> bytes \<Rightarrow> string \<Rightarrow> string \<Rightarrow> 'w st \<Rightarrow> (py_exception + file_obj) \<times> 'w st" where
  "do_upload E raw mime name s =
     (case s of (w, log) \<Rightarrow>
        (case files_upload E raw mime name w of (r, w') \<Rightarrow> (r, (w', log @ [Upload raw mime name]))))"

definition do_get :: "'w env \<Rightarrow> string \<Rightarrow> 'w st \<Rightarrow> (py_exception + file_obj) \<times> 'w st" where
  "do_get E name s =
     (case s of (w, log) \<Rightarrow>
        (case files_get E name w of (r, w') \<Rightarrow> (r, (w', log @ [Get name]))))"

definition do_delete :: "'w env \<Rightarrow> string \<Rightarrow> 'w st \<Rightarrow> (py_exception + unit) \<times> 'w st" where
  "do_delete E name s =
     (case s of (w, log) \<Rightarrow>
        (case files_delete E name w of (r, w') \<Rightarrow> (r, (w', log @ [Delete name]))))"

definition do_generate ::
  "'w env \<Rightarrow> string \<Rightarrow> part list \<Rightarrow> 'w st \<Rightarrow> (py_exception + response_stream) \<times> 'w st" where
  "do_generate E model cs s =
     (case s of (w, log) \<Rightarrow>
        (case generate_content_stream E model cs w of (r, w') \<Rightarrow> (r, (w', log @ [Generate model cs]))))"

definition acquire :: "string \<Rightarrow> 'w st \<Rightarrow> 'w st" where
  "acquire name s = (case s of (w, log) \<Rightarrow> (w, log @ [Acquired name]))"

text \<open>\<^verbatim>\<open>types.Part.from_bytes\<close> and \<^verbatim>\<open>types.Part.from_uri\<close>, which the handler calls under
  \<^verbatim>\<open>try\<close>: each builds its part, or raises as the library decides.\<close>

definition Part_from_uri :: "'w env \<Rightarrow> string \<Rightarrow> string \<Rightarrow> py_exception + part" where
  "Part_from_uri E uri mime =
     (case from_uri_raises E uri mime of Some e \<Rightarrow> Inl e | None \<Rightarrow> Inr (Part_file_data uri mime))"

definition Part_from_bytes :: "'w env \<Rightarrow> bytes \<Rightarrow> string \<Rightarrow> py_exception + part" where
  "Part_from_bytes E raw mime =
     (case from_bytes_raises E raw mime of Some e \<Rightarrow> Inl e | None \<Rightarrow> Inr (Part_inline raw mime))"

subsection \<open>\<^verbatim>\<open>upload_file_to_gemini\<close>\<close>

definition max_attempts :: nat where
  "max_attempts = 30"

text \<open>The \<^verbatim>\<open>for attempt in range(max_attempts)\<close> loop, by the number of attempts left, and
  the \<^verbatim>\<open>raise\<close> after it. The sleep between two attempts takes no part in the result.\<close>

fun wait_active ::
  "'w env \<Rightarrow> string \<Rightarrow> nat \<Rightarrow> file_obj \<Rightarrow> 'w st \<Rightarrow> (py_exception + string \<times> string) \<times> 'w st" where
  "wait_active E name 0 uploaded s =
     (Inl (Exception (''File processing timeout for: '' @ name)), s)"
| "wait_active E name (Suc n) uploaded s =
     (if f_state uploaded = ACTIVE then
        (Inr (f_uri uploaded, f_name uploaded), acquire (f_name uploaded) s)
      else if f_state uploaded = FAILED then
        (Inl (Exception (''File processing failed: '' @ name)), s)
      else (case do_get E (f_name uploaded) s of
              (Inl e, s') \<Rightarrow> (Inl e, s')
            | (Inr uploaded', s') \<Rightarrow> wait_active E name n uploaded' s'))"

text \<open>The body of the \<^verbatim>\<open>try\<close>, then the \<^verbatim>\<open>except\<close> that wraps whatever it raised.\<close>

definition upload_and_wait ::
  "'w env \<Rightarrow> bytes \<Rightarrow> string \<Rightarrow> string \<Rightarrow> 'w st \<Rightarrow> (py_exception + string \<times> string) \<times> 'w st" where
  "upload_and_wait E raw_bytes mime_type name s =
     (case do_upload E raw_bytes mime_type name s of
        (Inl e, s') \<Rightarrow> (Inl e, s')
      | (Inr uploaded, s') \<Rightarrow> wait_active E name max_attempts uploaded s')"

definition upload_file_to_gemini ::
  "'w env \<Rightarrow> bytes \<Rightarrow> string \<Rightarrow> string \<Rightarrow> 'w st \<Rightarrow> (py_exception + string \<times> string) \<times> 'w st" where
  "upload_file_to_gemini E raw_bytes mime_type name s =
     (case upload_and_wait E raw_bytes mime_type name s of
        (Inl e, s') \<Rightarrow> (Inl (Exception (''Failed to upload '' @ name @ '': '' @ str e)), s')
      | (Inr r, s') \<Rightarrow> (Inr r, s'))"

subsection \<open>\<^verbatim>\<open>ask_question\<close>: the attachment loop\<close>

text \<open>The four variables the loop over \<^verbatim>\<open>files\<close> updates.\<close>

record acc =
  contents :: "part list"
  uploaded_file_uris :: "string list"
  file_errors :: "string list"
  prompt_text :: string

definition unsupported_error :: "string \<Rightarrow> string \<Rightarrow> string" where
  "unsupported_error name mime =
     ''File '' @ [CHR 0x27] @ name @ [CHR 0x27] @ '' ('' @ mime @ '') is unsupported''"

definition text_block :: "string \<Rightarrow> string \<Rightarrow> string" where
  "text_block name text_content =
     [NL, NL] @ ''--- Content of '' @ name @ '' ---'' @ [NL] @ text_content @ [NL] @
     ''--- End of '' @ name @ '' ---''"

text \<open>The \<^verbatim>\<open>except\<close> of the PDF branch, entered with the exception \<open>e\<close> that the \<^verbatim>\<open>try\<close>
  raised: the bytes go inline, or the error is recorded.\<close>

definition inline_fallback ::
  "'w env \<Rightarrow> bytes \<Rightarrow> string \<Rightarrow> string \<Rightarrow> py_exception \<Rightarrow> acc \<Rightarrow> acc" where
  "inline_fallback E raw_bytes mime name e a =
     (case Part_from_bytes E raw_bytes mime of
        Inr p \<Rightarrow> a\<lparr>contents := contents a @ [p]\<rparr>
      | Inl _ \<Rightarrow>
          a\<lparr>file_errors := file_errors a @
              [''Could not process PDF '' @ [CHR 0x27] @ name @ [CHR 0x27] @ '': '' @ str e]\<rparr>)"

text \<open>One turn of the loop. In the PDF branch the \<^verbatim>\<open>try\<close> holds three statements: the
  upload, the append of \<^verbatim>\<open>Part.from_uri(...)\<close> to the contents, and the append of the file
  name to \<^verbatim>\<open>uploaded_file_uris\<close>; the first two may raise.
  \<^verbatim>\<open>bytes.decode("utf-8", errors="replace")\<close> does not raise, so the \<^verbatim>\<open>except\<close> of the text
  branch has no case here.\<close>

definition process_file :: "'w env \<Rightarrow> attachment \<Rightarrow> acc \<Rightarrow> 'w st \<Rightarrow> acc \<times> 'w st" where
  "process_file E f a s =
     (let mime = (case mimeType f of None \<Rightarrow> [] | Some m \<Rightarrow> m);
          b64 = (case base64 f of None \<Rightarrow> [] | Some b \<Rightarrow> b);
          name = (case att_name f of None \<Rightarrow> ''file'' | Some n \<Rightarrow> n)
      in if b64 = [] \<or> mime = [] then (a, s)
         else if mime \<notin> SUPPORTED_MIME_TYPES then
           (a\<lparr>file_errors := file_errors a @ [unsupported_error name mime]\<rparr>, s)
         else
           (case b64decode E b64 of
              Inl e \<Rightarrow>
                (a\<lparr>file_errors := file_errors a @
                    [''Could not decode '' @ [CHR 0x27] @ name @ [CHR 0x27] @ '': '' @ str e]\<rparr>, s)
            | Inr raw_bytes \<Rightarrow>
                if mime = ''application/pdf'' then
                  (case upload_file_to_gemini E raw_bytes ''application/pdf'' name s of
                     (Inr (uri, file_name), s') \<Rightarrow>
                       (case Part_from_uri E uri ''application/pdf'' of
                          Inr p \<Rightarrow>
                            (a\<lparr>contents := contents a @ [p],
                               uploaded_file_uris := uploaded_file_uris a @ [file_name]\<rparr>, s')
                        | Inl e \<Rightarrow> (inline_fallback E raw_bytes mime name e a, s'))
                   | (Inl e, s') \<Rightarrow> (inline_fallback E raw_bytes mime name e a, s'))
                else if mime = ''text/plain'' then
                  (a\<lparr>prompt_text := prompt_text a @
                      text_block name (decode_utf8_replace E raw_bytes)\<rparr>, s)
                else
                  (case Part_from_bytes E raw_bytes mime of
                     Inr p \<Rightarrow> (a\<lparr>contents := contents a @ [p]\<rparr>, s)
                   | Inl e \<Rightarrow>
                       (a\<lparr>file_errors := file_errors a @
                           [''Could not process image '' @ [CHR 0x27] @ name @ [CHR 0x27] @
                            '': '' @ str e]\<rparr>, s))))"

fun process_files :: "'w env \<Rightarrow> attachment list \<Rightarrow> acc \<Rightarrow> 'w st \<Rightarrow> acc \<times> 'w st" where
  "process_files E [] a s = (a, s)"
| "process_files E (f # fs) a s =
     (case process_file E f a s of (a', s') \<Rightarrow> process_files E fs a' s')"

subsection \<open>\<^verbatim>\<open>ask_question\<close>\<close>

definition default_question :: string where
  "default_question = ''Please analyse this and answer any questions based on it.''"

definition errors_note :: "string list \<Rightarrow> string" where
  "errors_note errs =
     [NL, NL] @ ''[Note: Some files could not be processed: '' @ join ''; '' errs @ '']''"

text \<open>What the generator \<^verbatim>\<open>stream\<close> keeps of the handler's variables.\<close>

record closure =
  model_name :: string
  c_contents :: "part list"
  c_uploaded_file_uris :: "string list"

text \<open>The fields are read in the order of the source; reading the model tag is the one
  step that can raise before the checks.\<close>

definition ask_question ::
  "'w env \<Rightarrow> payload \<Rightarrow> 'w st \<Rightarrow> (handler_error + closure) \<times> 'w st" where
  "ask_question E payload s =
     (let board = upper E (strip E (or_default (p_board payload) ''ICSE''));
          class_level = strip E (or_default (p_class_level payload) ''10'');
          subject = strip E (or_default (p_subject payload) ''General'');
          chapter = strip E (or_default (p_chapter payload) ''General'');
          question = strip E (or_default (p_question payload) [])
      in (case call_lower (or_value (p_model payload) (JString ''t1'')) of
            Inl err \<Rightarrow> (Inl err, s)
          | Inr model_choice \<Rightarrow>
             (let files = (case p_files payload of None \<Rightarrow> [] | Some fs \<Rightarrow> fs)
              in if board \<notin> ALLOWED_BOARDS then (Inl (HTTPException 400 ''Invalid board''), s)
                 else if question = [] \<and> files = [] then
                   (Inl (HTTPException 400 ''Question or file required''), s)
                 else
                   (let question = (if question = [] \<and> files \<noteq> [] then default_question
                                    else question);
                        model = (if model_choice = ''t2'' then ''gemini-3-flash-preview''
                                 else ''gemini-2.5-flash-lite'');
                        text0 = prompt_template board class_level subject chapter question
                    in (case process_files E files
                               \<lparr>contents = [], uploaded_file_uris = [], file_errors = [],
                                prompt_text = text0\<rparr> s of
                          (a, s') \<Rightarrow>
                            (let text1 = (if file_errors a \<noteq> []
                                          then prompt_text a @ errors_note (file_errors a)
                                          else prompt_text a)
                             in (Inr \<lparr>model_name = model,
                                      c_contents = contents a @ [Part_from_text text1],
                                      c_uploaded_file_uris = uploaded_file_uris a\<rparr>, s')))))))"

subsection \<open>The generator \<^verbatim>\<open>stream\<close>\<close>

text \<open>The frame of one fragment, given \<^verbatim>\<open>json.dumps\<close>.\<close>

definition data_frame :: "(string \<Rightarrow> string) \<Rightarrow> string \<Rightarrow> string" where
  "data_frame dumps text = ''data: '' @ dumps text @ [NL, NL]"

definition end_frame :: string where
  "end_frame = ''event: end'' @ [NL] @ ''data: done'' @ [NL, NL]"

text \<open>The \<^verbatim>\<open>except Exception as e\<close> of the generator: one frame, chosen by the message.\<close>

definition error_frame :: "string \<Rightarrow> string" where
  "error_frame error_msg =
     (if sublist ''quota'' (lower error_msg) then
        ''event: error'' @ [NL] @ ''data: API quota exceeded. Please try again later.'' @ [NL, NL]
      else if sublist ''api key'' (lower error_msg) then
        ''event: error'' @ [NL] @ ''data: API configuration error. Please contact support.'' @
        [NL, NL]
      else ''event: error'' @ [NL] @ ''data: '' @ error_msg @ [NL, NL])"

text \<open>The \<^verbatim>\<open>while True\<close> loop, from pull number \<open>i\<close> on, with the frames yielded so far. It
  ends with \<^term>\<open>None\<close> for the exception when it leaves by \<^verbatim>\<open>break\<close>, and with the
  exception it raises again otherwise; a stream that never ends has no result.
  \<^verbatim>\<open>next(response_stream, None)\<close> turns the iterator's \<^verbatim>\<open>StopIteration\<close> into \<^verbatim>\<open>None\<close>, so
  the \<^verbatim>\<open>except StopIteration\<close> of the loop has no case here.\<close>

partial_function (option) pull_loop ::
  "(string \<Rightarrow> string) \<Rightarrow> response_stream \<Rightarrow> nat \<Rightarrow> nat \<Rightarrow> string list \<Rightarrow>
     (string list \<times> py_exception option) option" where
  "pull_loop dumps response_stream i chunk_count out =
     (case response_stream i of
        Exhausted \<Rightarrow> Some (out, None)
      | Chunk t \<Rightarrow>
          (if or_default t [] \<noteq> [] then
             pull_loop dumps response_stream (Suc i) (Suc chunk_count)
               (out @ [data_frame dumps (or_default t [])])
           else pull_loop dumps response_stream (Suc i) chunk_count out)
      | Raises chunk_error \<Rightarrow>
          (if chunk_count = 0 then Some (out, Some chunk_error) else Some (out, None)))"

text \<open>The \<^verbatim>\<open>finally\<close>: one delete for each name, whatever each delete does.\<close>

fun cleanup :: "'w env \<Rightarrow> string list \<Rightarrow> 'w st \<Rightarrow> 'w st" where
  "cleanup E [] s = s"
| "cleanup E (file_name # rest) s =
     (case do_delete E file_name s of (_, s') \<Rightarrow> cleanup E rest s')"

text \<open>The generator, run to its end: the frames it yields, in order, and the state it leaves.\<close>

definition stream :: "'w env \<Rightarrow> closure \<Rightarrow> 'w st \<Rightarrow> (string list \<times> 'w st) option" where
  "stream E c s =
     (case do_generate E (model_name c) (c_contents c) s of
        (Inl e, s1) \<Rightarrow>
          Some ([error_frame (str e)], cleanup E (c_uploaded_file_uris c) s1)
      | (Inr response_stream, s1) \<Rightarrow>
          (case pull_loop (json_dumps E) response_stream 0 0 [] of
             None \<Rightarrow> None
           | Some (frames, None) \<Rightarrow>
               Some (frames @ [end_frame], cleanup E (c_uploaded_file_uris c) s1)
           | Some (frames, Some e) \<Rightarrow>
               Some (frames @ [error_frame (str e)], cleanup E (c_uploaded_file_uris c) s1)))"

text \<open>The endpoint: the handler, then the framework runs the generator of the response it
  returned. The result is the HTTP error, or the frames sent.\<close>

definition api_ask ::
  "'w env \<Rightarrow> payload \<Rightarrow> 'w st \<Rightarrow> ((handler_error + string list) \<times> 'w st) option" where
  "api_ask E payload s =
     (case ask_question E payload s of
        (Inl err, s') \<Rightarrow> Some (Inl err, s')
      | (Inr c, s') \<Rightarrow>
          (case stream E c s' of
             None \<Rightarrow> None
           | Some (frames, s'') \<Rightarrow> Some (Inr frames, s'')))"

subsection \<open>Reading a run\<close>

text \<open>The frames of section 6 of the specification, told apart by how they begin.\<close>

definition is_data_frame :: "string \<Rightarrow> bool" where
  "is_data_frame f = prefix ''data: '' f"

definition is_error_frame :: "string \<Rightarrow> bool" where
  "is_error_frame f = prefix ''event: error'' f"

definition is_chunk :: "pull \<Rightarrow> bool" where
  "is_chunk p = (case p of Chunk t \<Rightarrow> True | _ \<Rightarrow> False)"

text \<open>The non-empty texts among the first \<open>k\<close> pulls of a stream: the fragments the relay
  forwards when these pulls all return chunks.\<close>

definition forwarded :: "response_stream \<Rightarrow> nat \<Rightarrow> string list" where
  "forwarded rs k =
     filter (\<lambda>t. t \<noteq> [])
       (map (\<lambda>j. case rs j of Chunk t \<Rightarrow> or_default t [] | _ \<Rightarrow> []) [0..<k])"

text \<open>The same from pull \<open>i\<close> on.\<close>

definition texts_from :: "response_stream \<Rightarrow> nat \<Rightarrow> nat \<Rightarrow> string list" where
  "texts_from rs i k =
     filter (\<lambda>t. t \<noteq> [])
       (map (\<lambda>j. case rs j of Chunk t \<Rightarrow> or_default t [] | _ \<Rightarrow> []) [i..<k])"

text \<open>In a sequence of frames, no error frame comes after a data frame.\<close>

definition no_error_after_data :: "string list \<Rightarrow> bool" where
  "no_error_after_data frames =
     (\<forall>j < length frames. is_error_frame (frames ! j) \<longrightarrow>
        (\<forall>i < j. \<not> is_data_frame (frames ! i)))"

text \<open>The names a log marks as acquired, and the names it deletes, in order.\<close>

fun acquired_of :: "call list \<Rightarrow> string list" where
  "acquired_of [] = []"
| "acquired_of (Acquired name # log) = name # acquired_of log"
| "acquired_of (_ # log) = acquired_of log"

fun deleted_of :: "call list \<Rightarrow> string list" where
  "deleted_of [] = []"
| "deleted_of (Delete name # log) = name # deleted_of log"
| "deleted_of (_ # log) = deleted_of log"

text \<open>A model tag the handler can lowercase: a string, or a value that \<^verbatim>\<open>or\<close> replaces by
  \<^verbatim>\<open>"t1"\<close>; and the text it then lowercases.\<close>

definition text_or_falsy :: "json option \<Rightarrow> bool" where
  "text_or_falsy v =
     (case v of None \<Rightarrow> True | Some (JString s) \<Rightarrow> True | Some j \<Rightarrow> \<not> truthy j)"

definition model_tag :: "json option \<Rightarrow> string" where
  "model_tag v = (case v of Some (JString s) \<Rightarrow> if s = [] then ''t1'' else s | _ \<Rightarrow> ''t1'')"




subsection \<open>A service to run the handler on\<close>

text \<open>The concrete runs below use a service whose state counts the polls of the uploaded
  file: the file's state at poll \<open>k\<close> is \<open>states k\<close>, every delete fails, and the generation
  call does what \<open>gen\<close> says. Base64 and UTF-8 are stood in for by the identity on character
  codes, with one payload that does not decode; no part constructor raises.\<close>

definition test_env :: "(nat \<Rightarrow> file_state) \<Rightarrow> py_exception + response_stream \<Rightarrow> nat env" where
  "test_env states gen =
     \<lparr>str_strip = ascii_strip,
      str_upper = ascii_upper,
      b64decode = (\<lambda>b. if b = ''!'' then Inl (Exception ''Incorrect padding'')
                        else Inr (map of_char b)),
      decode_utf8_replace = map (\<lambda>b. char_of (unat b)),
      json_dumps = (\<lambda>t. [CHR 0x22] @ t @ [CHR 0x22]),
      from_bytes_raises = (\<lambda>raw mime. None),
      from_uri_raises = (\<lambda>uri mime. None),
      files_upload = (\<lambda>raw mime name w.
         (Inr \<lparr>f_state = states 0, f_uri = ''uri/'' @ name, f_name = ''files/'' @ name\<rparr>, 0)),
      files_get = (\<lambda>name w.
         (Inr \<lparr>f_state = states (Suc w), f_uri = ''uri/'' @ name, f_name = name\<rparr>, Suc w)),
      files_delete = (\<lambda>name w. (Inl (Exception ''not found''), w)),
      generate_content_stream = (\<lambda>model cs w. (gen, w))\<rparr>"

definition empty_payload :: payload where
  "empty_payload = \<lparr>p_board = None, p_class_level = None, p_subject = None, p_chapter = None,
     p_question = None, p_model = None, p_files = None\<rparr>"

definition attach :: "string \<Rightarrow> string \<Rightarrow> string \<Rightarrow> attachment" where
  "attach name mime b64 = \<lparr>att_name = Some name, mimeType = Some mime, base64 = Some b64\<rparr>"

text \<open>A stream that returns one chunk and then raises, and the variables of a generator
  that has two uploaded files to delete.\<close>

definition chunk_then_raise :: "string option \<Rightarrow> py_exception \<Rightarrow> response_stream" where
  "chunk_then_raise t e = (\<lambda>n. if n = 0 then Chunk t else Raises e)"

definition closure0 :: closure where
  "closure0 = \<lparr>model_name = ''gemini-2.5-flash-lite'', c_contents = [Part_from_text ''Hello''],
     c_uploaded_file_uris = [''files/a'', ''files/b'']\<rparr>"

text \<open>The variables of the loop before a turn, with a short prompt text.\<close>

definition acc0 :: acc where
  "acc0 = \<lparr>contents = [], uploaded_file_uris = [], file_errors = [], prompt_text = ''Prompt''\<rparr>"

text \<open>A request with one PDF and no question.\<close>

definition pdf_payload :: payload where
  "pdf_payload = empty_payload\<lparr>p_files := Some [attach ''a.pdf'' ''application/pdf'' ''abc'']\<rparr>"

text \<open>The service with a library whose \<^verbatim>\<open>Part.from_uri\<close> rejects its call: the file is active
  at once, the stream is empty.\<close>

definition uri_rejecting_env :: "nat env" where
  "uri_rejecting_env =
     (test_env (\<lambda>n. ACTIVE) (Inr (\<lambda>n. Exhausted)))
       \<lparr>from_uri_raises :=
          (\<lambda>uri mime. Some (Exception ''Part.from_uri() got an unexpected keyword argument''))\<rparr>"

section \<open>Basic facts\<close>

lemmas text_defs = strip_def upper_def is_ascii_def ascii_upper_def lower_def ascii_strip_def
  is_space_def upper_char_def lower_char_def or_default_def

lemmas tpl_defs = tpl_0_def tpl_1_def tpl_2_def tpl_3_def tpl_4_def tpl_5_def tpl_6_def
  tpl_7_def tpl_8_def tpl_9_def tpl_10_def tpl_11_def tpl_12_def tpl_13_def tpl_14_def
  tpl_15_def tpl_16_def

lemma upper_strip_ICSE: "upper E (strip E ''ICSE'') = ''ICSE''"
  by (simp add: text_defs)

lemma lower_char_t: "lower_char c = CHR ''t'' \<longleftrightarrow> c = CHR ''t'' \<or> c = CHR ''T''"
  by (auto simp add: lower_char_def split: if_splits)

lemma lower_char_2: "lower_char c = CHR ''2'' \<longleftrightarrow> c = CHR ''2''"
  by (auto simp add: lower_char_def split: if_splits)

lemma lower_eq_t2: "lower s = ''t2'' \<longleftrightarrow> s = ''t2'' \<or> s = ''T2''"
proof (cases s)
  case Nil
  then show ?thesis by (simp add: lower_def)
next
  case (Cons c1 r)
  show ?thesis
  proof (cases r)
    case Nil
    with Cons show ?thesis by (simp add: lower_def)
  next
    case (Cons c2 r')
    with \<open>s = c1 # r\<close> show ?thesis
      by (cases r') (auto simp add: lower_def lower_char_t lower_char_2)
  qed
qed

lemma call_lower_text:
  "text_or_falsy v \<Longrightarrow> call_lower (or_value v (JString ''t1'')) = Inr (lower (model_tag v))"
  by (cases v; cases "the v")
    (auto simp add: text_or_falsy_def call_lower_def or_value_def model_tag_def)

lemma call_lower_no_text:
  "\<not> text_or_falsy v \<Longrightarrow> \<exists>msg. call_lower (or_value v (JString ''t1'')) = Inl (AttributeError msg)"
  by (cases v; cases "the v")
    (auto simp add: text_or_falsy_def call_lower_def or_value_def)

lemma process_file_prompt_prefix:
  "prefix (prompt_text a) (prompt_text (fst (process_file E f a s)))"
  by (simp add: process_file_def inline_fallback_def Let_def split: sum.splits prod.splits)

lemma process_files_prompt_prefix:
  "prefix (prompt_text a) (prompt_text (fst (process_files E fs a s)))"
proof (induction fs arbitrary: a s)
  case Nil
  then show ?case by simp
next
  case (Cons f fs)
  obtain a' s' where step: "process_file E f a s = (a', s')" by (cases "process_file E f a s")
  have "prefix (prompt_text a) (prompt_text a')"
    using process_file_prompt_prefix [of a E f s] step by simp
  moreover have "prefix (prompt_text a') (prompt_text (fst (process_files E fs a' s')))"
    by (rule Cons.IH)
  ultimately show ?case using step by (auto intro: prefix_order.trans)
qed

lemma ask_question_proceeds:
  assumes "text_or_falsy (p_model payload)"
    and "upper E (strip E (or_default (p_board payload) ''ICSE'')) \<in> ALLOWED_BOARDS"
    and "strip E (or_default (p_question payload) []) \<noteq> [] \<or>
         (case p_files payload of None \<Rightarrow> [] | Some fs \<Rightarrow> fs) \<noteq> []"
  shows "\<exists>c s' t.
           ask_question E payload s = (Inr c, s') \<and>
           model_name c = (if lower (model_tag (p_model payload)) = ''t2''
                           then ''gemini-3-flash-preview'' else ''gemini-2.5-flash-lite'') \<and>
           c_contents c = butlast (c_contents c) @ [Part_from_text t] \<and>
           prefix (prompt_template (upper E (strip E (or_default (p_board payload) ''ICSE'')))
                     (strip E (or_default (p_class_level payload) ''10''))
                     (strip E (or_default (p_subject payload) ''General''))
                     (strip E (or_default (p_chapter payload) ''General''))
                     (if strip E (or_default (p_question payload) []) = [] then default_question
                      else strip E (or_default (p_question payload) []))) t"
proof -
  let ?files = "case p_files payload of None \<Rightarrow> [] | Some fs \<Rightarrow> fs"
  let ?q = "if strip E (or_default (p_question payload) []) = [] then default_question
            else strip E (or_default (p_question payload) [])"
  let ?t0 = "prompt_template (upper E (strip E (or_default (p_board payload) ''ICSE'')))
                     (strip E (or_default (p_class_level payload) ''10''))
                     (strip E (or_default (p_subject payload) ''General''))
                     (strip E (or_default (p_chapter payload) ''General'')) ?q"
  let ?a0 = "\<lparr>contents = [], uploaded_file_uris = [], file_errors = [], prompt_text = ?t0\<rparr>"
  obtain a s' where run: "process_files E ?files ?a0 s = (a, s')"
    by (cases "process_files E ?files ?a0 s")
  have pre: "prefix ?t0 (prompt_text a)"
    using process_files_prompt_prefix [of ?a0 E ?files s] run by simp
  show ?thesis
    using assms(2,3) run pre call_lower_text [OF assms(1)]
    by (auto simp add: ask_question_def Let_def intro: prefix_order.trans)
qed

lemma sublist_question: "sublist question (prompt_template board class_level subject chapter question)"
proof -
  have "prompt_template board class_level subject chapter question =
      (tpl_0 @ board @ tpl_1 @ class_level @ tpl_2 @ board @ tpl_3 @ subject @ tpl_4 @ chapter @
       tpl_5 @ class_level @ tpl_6) @ question @
      (tpl_7 @ board @ tpl_8 @ board @ tpl_9 @
       class_level @ tpl_10 @ class_level @ tpl_11 @ class_level @ tpl_12 @ board @ tpl_13 @
       board @ tpl_14 @ class_level @ tpl_15 @ subject @ tpl_16)"
    by (simp add: prompt_template_def)
  then show ?thesis by (simp only: sublist_appendI)
qed

lemma sublist_of_prefix: "sublist x p \<Longrightarrow> prefix p t \<Longrightarrow> sublist x t"
  by (metis prefix_def sublist_append)

subsection \<open>The pull loop and the frames of a run\<close>

lemma pull_loop_Exhausted:
  "rs i = Exhausted \<Longrightarrow> pull_loop dumps rs i n out = Some (out, None)"
  by (subst pull_loop.simps) simp

lemma pull_loop_Raises:
  "rs i = Raises e \<Longrightarrow>
   pull_loop dumps rs i n out = Some (out, if n = 0 then Some e else None)"
  by (subst pull_loop.simps) simp

lemma pull_loop_Chunk:
  "rs i = Chunk t \<Longrightarrow>
   pull_loop dumps rs i n out =
     (if or_default t [] \<noteq> [] then pull_loop dumps rs (Suc i) (Suc n) (out @ [data_frame dumps (or_default t [])])
      else pull_loop dumps rs (Suc i) n out)"
  by (subst pull_loop.simps) simp

lemma pull_loop_chunks:
  assumes "\<forall>j. i \<le> j \<and> j < k \<longrightarrow> is_chunk (rs j)" and "i \<le> k"
  shows "pull_loop dumps rs i n out =
         pull_loop dumps rs k (n + length (texts_from rs i k)) (out @ map (data_frame dumps) (texts_from rs i k))"
  using assms
proof (induction "k - i" arbitrary: i n out)
  case 0
  then show ?case by (simp add: texts_from_def)
next
  case (Suc d)
  then have lt: "i < k" by simp
  with Suc.prems have "is_chunk (rs i)" by simp
  then obtain t where c: "rs i = Chunk t"
    by (cases "rs i") (simp_all add: is_chunk_def)
  have step: "texts_from rs i k =
      (if or_default t [] \<noteq> [] then [or_default t []] else []) @ texts_from rs (Suc i) k"
    using lt c by (simp add: texts_from_def upt_conv_Cons)
  have ih: "\<And>n out. pull_loop dumps rs (Suc i) n out =
         pull_loop dumps rs k (n + length (texts_from rs (Suc i) k))
            (out @ map (data_frame dumps) (texts_from rs (Suc i) k))"
    using Suc.hyps(1) [of "Suc i"] Suc.hyps(2) Suc.prems lt by simp
  show ?case
    by (simp add: pull_loop_Chunk [of rs i t, OF c] ih step)
qed


lemma texts_from_0: "texts_from rs 0 k = forwarded rs k"
  by (simp add: texts_from_def forwarded_def)

lemma pull_loop_run_to_raise:
  assumes "\<forall>j<k. is_chunk (rs j)" and "rs k = Raises e"
  shows "pull_loop dumps rs 0 0 [] =
         Some (map (data_frame dumps) (forwarded rs k), if forwarded rs k = [] then Some e else None)"
proof -
  have "pull_loop dumps rs 0 0 [] =
        pull_loop dumps rs k (length (forwarded rs k)) (map (data_frame dumps) (forwarded rs k))"
    using pull_loop_chunks [of 0 k rs dumps 0 "[]"] assms(1) by (simp add: texts_from_0)
  then show ?thesis
    by (simp add: pull_loop_Raises [of rs k e, OF assms(2)])
qed

lemma pull_loop_run_to_end:
  assumes "\<forall>j<k. is_chunk (rs j)" and "rs k = Exhausted"
  shows "pull_loop dumps rs 0 0 [] = Some (map (data_frame dumps) (forwarded rs k), None)"
proof -
  have "pull_loop dumps rs 0 0 [] =
        pull_loop dumps rs k (length (forwarded rs k)) (map (data_frame dumps) (forwarded rs k))"
    using pull_loop_chunks [of 0 k rs dumps 0 "[]"] assms(1) by (simp add: texts_from_0)
  then show ?thesis
    by (simp add: pull_loop_Exhausted [of rs k, OF assms(2)])
qed

lemma pull_loop_shape:
  assumes "pull_loop dumps rs i n out = Some y"
  shows "\<exists>texts. fst y = out @ map (data_frame dumps) texts \<and> (snd y \<noteq> None \<longrightarrow> n = 0 \<and> texts = [])"
proof (rule pull_loop.raw_induct
    [where P = "\<lambda>dumps rs i n out y. \<exists>texts. fst y = out @ map (data_frame dumps) texts \<and>
                  (snd y \<noteq> None \<longrightarrow> n = 0 \<and> texts = [])", OF _ assms], goal_cases)
  case (1 loop dumps rs i n out y)
  show ?case
  proof (cases "rs i")
    case (Chunk t)
    show ?thesis
    proof (cases "or_default t [] \<noteq> []")
      case True
      with 1(2) Chunk have "loop dumps rs (Suc i) (Suc n) (out @ [data_frame dumps (or_default t [])]) = Some y"
        by simp
      from 1(1) [OF this] obtain texts where
        "fst y = (out @ [data_frame dumps (or_default t [])]) @ map (data_frame dumps) texts"
        "snd y = None"
        by auto
      then have "fst y = out @ map (data_frame dumps) (or_default t [] # texts) \<and> snd y = None"
        by simp
      then show ?thesis by blast
    next
      case False
      with 1(2) Chunk have "loop dumps rs (Suc i) n out = Some y"
        by simp
      from 1(1) [OF this] show ?thesis .
    qed
  next
    case Exhausted
    with 1(2) have "y = (out, None)" by simp
    then show ?thesis by simp
  next
    case (Raises e)
    with 1(2) have "y = (out, if n = 0 then Some e else None)" by (auto split: if_splits)
    then show ?thesis by simp
  qed
qed


lemma data_frame_kind: "is_data_frame (data_frame dumps t) \<and> \<not> is_error_frame (data_frame dumps t)"
  by (simp add: data_frame_def is_data_frame_def is_error_frame_def)

lemma end_frame_kind: "\<not> is_data_frame end_frame \<and> \<not> is_error_frame end_frame"
  by (simp add: end_frame_def is_data_frame_def is_error_frame_def)

lemma error_frame_kind: "is_error_frame (error_frame msg) \<and> \<not> is_data_frame (error_frame msg)"
  by (simp add: error_frame_def is_data_frame_def is_error_frame_def)

lemma cleanup_total: "\<exists>w'. cleanup E names (w, log) = (w', log @ map Delete names)"
proof (induction names arbitrary: w log)
  case Nil
  then show ?case by simp
next
  case (Cons name names)
  obtain r w1 where d: "files_delete E name w = (r, w1)" by (cases "files_delete E name w")
  from Cons.IH [of w1 "log @ [Delete name]"] d show ?case
    by (simp add: do_delete_def)
qed

lemma stream_shape:
  assumes "stream E c s = Some (frames, s')"
  shows "\<exists>texts t. frames = map (data_frame (json_dumps E)) texts @ [t] \<and>
           (t = end_frame \<or> (texts = [] \<and> (\<exists>msg. t = error_frame msg)))"
proof -
  obtain w log where s: "s = (w, log)" by (cases s)
  obtain r w1 where g: "generate_content_stream E (model_name c) (c_contents c) w = (r, w1)"
    by (cases "generate_content_stream E (model_name c) (c_contents c) w")
  show ?thesis
  proof (cases r)
    case (Inl e)
    with assms s g have "frames = [error_frame (str e)]"
      by (simp add: stream_def do_generate_def)
    then show ?thesis by auto
  next
    case (Inr rs)
    with assms s g obtain y where y: "pull_loop (json_dumps E) rs 0 0 [] = Some y"
      by (cases "pull_loop (json_dumps E) rs 0 0 []") (simp_all add: stream_def do_generate_def)
    from pull_loop_shape [OF y] obtain texts where
      t: "fst y = map (data_frame (json_dumps E)) texts" "snd y \<noteq> None \<longrightarrow> texts = []"
      by auto
    show ?thesis
    proof (cases "snd y")
      case None
      with assms s g Inr y t have "frames = map (data_frame (json_dumps E)) texts @ [end_frame]"
        by (cases y) (simp add: stream_def do_generate_def)
      then show ?thesis by blast
    next
      case (Some e)
      with assms s g Inr y t have "frames = map (data_frame (json_dumps E)) texts @ [error_frame (str e)]"
        by (cases y) (simp add: stream_def do_generate_def)
      with Some t show ?thesis by auto
    qed
  qed
qed

lemma stream_no_error_after_data:
  assumes "stream E c s = Some (frames, s')"
  shows "no_error_after_data frames"
proof -
  from stream_shape [OF assms] obtain texts t where
    f: "frames = map (data_frame (json_dumps E)) texts @ [t]"
    and k: "t = end_frame \<or> (texts = [] \<and> (\<exists>msg. t = error_frame msg))"
    by blast
  show ?thesis
    unfolding no_error_after_data_def
  proof (intro allI impI)
    fix j i
    assume j: "j < length frames" and e: "is_error_frame (frames ! j)" and i: "i < j"
    have "j = length texts"
    proof (rule ccontr)
      assume "j \<noteq> length texts"
      with j f have "j < length texts" by simp
      with f have "frames ! j = data_frame (json_dumps E) (texts ! j)" by (simp add: nth_append)
      with e data_frame_kind show False by metis
    qed
    with f e have "is_error_frame t" by (simp add: nth_append)
    with k end_frame_kind have "texts = []" by auto
    with \<open>j = length texts\<close> i show "\<not> is_data_frame (frames ! i)" by simp
  qed
qed

lemma stream_on_raise:
  assumes "generate_content_stream E (model_name c) (c_contents c) w = (Inr rs, w1)"
    and "\<forall>j<k. is_chunk (rs j)" and "rs k = Raises e"
  shows "stream E c (w, log) =
     Some (map (data_frame (json_dumps E)) (forwarded rs k) @
             [if forwarded rs k = [] then error_frame (str e) else end_frame],
           cleanup E (c_uploaded_file_uris c) (w1, log @ [Generate (model_name c) (c_contents c)]))"
  using assms(1) pull_loop_run_to_raise [OF assms(2,3), of "json_dumps E"]
  by (simp add: stream_def do_generate_def)

lemma stream_log:
  assumes "stream E c (w, log) = Some (frames, (w', log'))"
  shows "log' = log @ Generate (model_name c) (c_contents c) # map Delete (c_uploaded_file_uris c)"
proof -
  obtain r w1 where g: "generate_content_stream E (model_name c) (c_contents c) w = (r, w1)"
    by (cases "generate_content_stream E (model_name c) (c_contents c) w")
  obtain w2 where cl: "cleanup E (c_uploaded_file_uris c) (w1, log @ [Generate (model_name c) (c_contents c)])
      = (w2, (log @ [Generate (model_name c) (c_contents c)]) @ map Delete (c_uploaded_file_uris c))"
    using cleanup_total [of E "c_uploaded_file_uris c" w1
        "log @ [Generate (model_name c) (c_contents c)]"] by blast
  from assms g cl show ?thesis
    by (auto simp add: stream_def do_generate_def split: sum.splits option.splits prod.splits)
qed
subsection \<open>The attachment loop\<close>

lemma process_file_errors_mono:
  "set (file_errors a) \<subseteq> set (file_errors (fst (process_file E f a s)))"
  by (auto simp add: process_file_def inline_fallback_def Let_def split: sum.splits prod.splits)

lemma process_files_errors_mono:
  "set (file_errors a) \<subseteq> set (file_errors (fst (process_files E fs a s)))"
proof (induction fs arbitrary: a s)
  case Nil
  then show ?case by simp
next
  case (Cons f fs)
  obtain a' s' where step: "process_file E f a s = (a', s')" by (cases "process_file E f a s")
  have "set (file_errors a) \<subseteq> set (file_errors a')"
    using process_file_errors_mono [of a E f s] step by simp
  moreover have "set (file_errors a') \<subseteq> set (file_errors (fst (process_files E fs a' s')))"
    by (rule Cons.IH)
  ultimately show ?case using step by auto
qed

lemma process_files_records_error:
  assumes "f \<in> set fs"
    and "\<And>a s. process_file E f a s = (a\<lparr>file_errors := file_errors a @ [msg]\<rparr>, s)"
  shows "msg \<in> set (file_errors (fst (process_files E fs a s)))"
  using assms(1)
proof (induction fs arbitrary: a s)
  case Nil
  then show ?case by simp
next
  case (Cons g fs)
  obtain a' s' where step: "process_file E g a s = (a', s')" by (cases "process_file E g a s")
  show ?case
  proof (cases "g = f")
    case True
    with step assms(2) [of a s] have "msg \<in> set (file_errors a')" by auto
    with process_files_errors_mono [of a' E fs s'] step show ?thesis by auto
  next
    case False
    with Cons.prems have "f \<in> set fs" by simp
    from Cons.IH [OF this, of a' s'] step show ?thesis by simp
  qed
qed

lemma process_files_splices_block:
  assumes "f \<in> set fs"
    and "\<And>a s. process_file E f a s = (a\<lparr>prompt_text := prompt_text a @ blk\<rparr>, s)"
  shows "sublist blk (prompt_text (fst (process_files E fs a s)))"
  using assms(1)
proof (induction fs arbitrary: a s)
  case Nil
  then show ?case by simp
next
  case (Cons g fs)
  obtain a' s' where step: "process_file E g a s = (a', s')" by (cases "process_file E g a s")
  show ?case
  proof (cases "g = f")
    case True
    with step assms(2) [of a s] have "sublist blk (prompt_text a')" by auto
    with process_files_prompt_prefix [of a' E fs s'] step show ?thesis
      by (auto intro: sublist_of_prefix)
  next
    case False
    with Cons.prems have "f \<in> set fs" by simp
    from Cons.IH [OF this, of a' s'] step show ?thesis by simp
  qed
qed

lemma sublist_mid: "sublist x y \<Longrightarrow> sublist x (p @ y @ r)"
proof -
  assume "sublist x y"
  then obtain ps ss where "y = ps @ x @ ss" by (auto simp add: sublist_def)
  then have "p @ y @ r = (p @ ps) @ x @ (ss @ r)" by simp
  then show ?thesis by (simp only: sublist_appendI)
qed

lemma sublist_right: "sublist x y \<Longrightarrow> sublist x (y @ r)"
  using sublist_mid [of x y "[]" r] by simp

lemma sublist_drop_prefix: "sublist (p @ x) y \<Longrightarrow> sublist x y"
proof -
  assume "sublist (p @ x) y"
  then obtain ps ss where "y = ps @ (p @ x) @ ss" by (auto simp add: sublist_def)
  then have "y = (ps @ p) @ x @ ss" by simp
  then show ?thesis by (simp only: sublist_appendI)
qed

lemma sublist_join: "x \<in> set xs \<Longrightarrow> sublist x (join sep xs)"
proof (induction sep xs rule: join.induct)
  case (1 sep)
  then show ?case by simp
next
  case (2 sep y)
  then show ?case by simp
next
  case (3 sep y z zs)
  show ?case
  proof (cases "x = y")
    case True
    then show ?thesis by simp
  next
    case False
    with 3 have "sublist x (join sep (z # zs))" by simp
    then obtain ps ss where "join sep (z # zs) = ps @ x @ ss"
      by (auto simp add: sublist_def)
    then have "join sep (y # z # zs) = (y @ sep @ ps) @ x @ ss" by simp
    then show ?thesis by (simp only: sublist_appendI)
  qed
qed

text \<open>The handler past its checks: the loop runs from the rendered template, and the text
  part is what the loop leaves, with the note when an error was recorded.\<close>

lemma ask_question_run:
  assumes "text_or_falsy (p_model payload)"
    and "upper E (strip E (or_default (p_board payload) ''ICSE'')) \<in> ALLOWED_BOARDS"
    and "(case p_files payload of None \<Rightarrow> [] | Some fs \<Rightarrow> fs) \<noteq> []"
  shows "\<exists>a s' q. process_files E (case p_files payload of None \<Rightarrow> [] | Some fs \<Rightarrow> fs)
             \<lparr>contents = [], uploaded_file_uris = [], file_errors = [],
              prompt_text = prompt_template (upper E (strip E (or_default (p_board payload) ''ICSE'')))
                     (strip E (or_default (p_class_level payload) ''10''))
                     (strip E (or_default (p_subject payload) ''General''))
                     (strip E (or_default (p_chapter payload) ''General'')) q\<rparr> s = (a, s') \<and>
           (\<exists>c. ask_question E payload s = (Inr c, s') \<and>
              c_contents c = contents a @
                [Part_from_text (if file_errors a \<noteq> [] then prompt_text a @ errors_note (file_errors a)
                                 else prompt_text a)])"
proof -
  let ?files = "case p_files payload of None \<Rightarrow> [] | Some fs \<Rightarrow> fs"
  let ?q = "if strip E (or_default (p_question payload) []) = [] then default_question
            else strip E (or_default (p_question payload) [])"
  let ?a0 = "\<lparr>contents = [], uploaded_file_uris = [], file_errors = [],
              prompt_text = prompt_template (upper E (strip E (or_default (p_board payload) ''ICSE'')))
                     (strip E (or_default (p_class_level payload) ''10''))
                     (strip E (or_default (p_subject payload) ''General''))
                     (strip E (or_default (p_chapter payload) ''General'')) ?q\<rparr>"
  obtain a s' where run: "process_files E ?files ?a0 s = (a, s')"
    by (cases "process_files E ?files ?a0 s")
  have "\<exists>c. ask_question E payload s = (Inr c, s') \<and>
              c_contents c = contents a @
                [Part_from_text (if file_errors a \<noteq> [] then prompt_text a @ errors_note (file_errors a)
                                 else prompt_text a)]"
    using assms(2,3) run call_lower_text [OF assms(1)]
    by (simp add: ask_question_def Let_def)
  with run show ?thesis by blast
qed

subsection \<open>Polling an uploaded file\<close>





section \<open>Input validation\<close>

text \<open>
  Claim C3. Take a payload whose model tag is text, or a value that \<^verbatim>\<open>or\<close> replaces, as the
  specification types it. If its board, stripped and uppercased, is none of ICSE, CBSE and
  SSLC, the endpoint answers with status 400, detail ``Invalid board'', and the handler has
  then made no call to the remote service: the state of the service and the log of calls
  are the ones it started with.
\<close>

theorem invalid_board_400:
  assumes "text_or_falsy (p_model payload)"
    and "upper E (strip E (or_default (p_board payload) ''ICSE'')) \<notin> ALLOWED_BOARDS"
  shows "ask_question E payload (w, log) = (Inl (HTTPException 400 ''Invalid board''), (w, log)) \<and>
         api_ask E payload (w, log) = Some (Inl (HTTPException 400 ''Invalid board''), (w, log))"
  using assms(2) call_lower_text [OF assms(1)]
  by (simp add: ask_question_def api_ask_def Let_def)

theorem invalid_board_400_witness:
  "text_or_falsy (p_model (empty_payload\<lparr>p_board := Some '' xyz ''\<rparr>)) \<and>
   upper (test_env (\<lambda>n. ACTIVE) (Inr (\<lambda>n. Exhausted)))
     (strip (test_env (\<lambda>n. ACTIVE) (Inr (\<lambda>n. Exhausted)))
        (or_default (p_board (empty_payload\<lparr>p_board := Some '' xyz ''\<rparr>)) ''ICSE''))
     \<notin> ALLOWED_BOARDS \<and>
   api_ask (test_env (\<lambda>n. ACTIVE) (Inr (\<lambda>n. Exhausted)))
     (empty_payload\<lparr>p_board := Some '' xyz ''\<rparr>) (0, [])
     = Some (Inl (HTTPException 400 ''Invalid board''), (0, []))"
proof -
  let ?E = "test_env (\<lambda>n. ACTIVE) (Inr (\<lambda>n. Exhausted))"
  let ?P = "empty_payload\<lparr>p_board := Some '' xyz ''\<rparr>"
  have m: "text_or_falsy (p_model ?P)"
    by (simp add: empty_payload_def text_or_falsy_def)
  have h: "upper ?E (strip ?E (or_default (p_board ?P) ''ICSE'')) \<notin> ALLOWED_BOARDS"
    by (simp add: empty_payload_def text_defs ALLOWED_BOARDS_def)
  show ?thesis
    using m h invalid_board_400 [OF m h, of 0 "[]"]
    by simp
qed

text \<open>
  Claim C4, as amended. Take a payload whose model tag is text, or a value that \<^verbatim>\<open>or\<close>
  replaces, and whose question is empty once stripped. With no file the handler answers 400
  and calls nothing. With at least one file and a board that passes the board check, the
  handler returns its response, and the text part, which is the last of the contents,
  begins with the template rendered with the default analysis sentence in the place of the
  question.
\<close>

theorem question_or_file_required:
  assumes "text_or_falsy (p_model payload)"
    and "strip E (or_default (p_question payload) []) = []"
  shows "((case p_files payload of None \<Rightarrow> [] | Some fs \<Rightarrow> fs) = [] \<longrightarrow>
            (\<exists>d. ask_question E payload (w, log) = (Inl (HTTPException 400 d), (w, log)))) \<and>
         ((case p_files payload of None \<Rightarrow> [] | Some fs \<Rightarrow> fs) \<noteq> [] \<and>
          upper E (strip E (or_default (p_board payload) ''ICSE'')) \<in> ALLOWED_BOARDS \<longrightarrow>
            (\<exists>c s' t. ask_question E payload (w, log) = (Inr c, s') \<and>
               last (c_contents c) = Part_from_text t \<and>
               prefix (prompt_template (upper E (strip E (or_default (p_board payload) ''ICSE'')))
                         (strip E (or_default (p_class_level payload) ''10''))
                         (strip E (or_default (p_subject payload) ''General''))
                         (strip E (or_default (p_chapter payload) ''General''))
                         default_question) t \<and>
               sublist default_question t))"
proof (intro conjI impI)
  assume "(case p_files payload of None \<Rightarrow> [] | Some fs \<Rightarrow> fs) = []"
  with assms(2) call_lower_text [OF assms(1)]
  show "\<exists>d. ask_question E payload (w, log) = (Inl (HTTPException 400 d), (w, log))"
    by (simp add: ask_question_def Let_def)
next
  assume h: "(case p_files payload of None \<Rightarrow> [] | Some fs \<Rightarrow> fs) \<noteq> [] \<and>
             upper E (strip E (or_default (p_board payload) ''ICSE'')) \<in> ALLOWED_BOARDS"
  from ask_question_proceeds [OF assms(1), of E "(w, log)"] h assms(2)
  obtain c s' t where r: "ask_question E payload (w, log) = (Inr c, s')"
    and l: "c_contents c = butlast (c_contents c) @ [Part_from_text t]"
    and p: "prefix (prompt_template (upper E (strip E (or_default (p_board payload) ''ICSE'')))
                         (strip E (or_default (p_class_level payload) ''10''))
                         (strip E (or_default (p_subject payload) ''General''))
                         (strip E (or_default (p_chapter payload) ''General''))
                         default_question) t"
    by auto
  from l have "last (c_contents c) = Part_from_text t"
    by (metis last_snoc)
  moreover from p have "sublist default_question t"
    using sublist_question sublist_of_prefix by blast
  ultimately show "\<exists>c s' t. ask_question E payload (w, log) = (Inr c, s') \<and>
               last (c_contents c) = Part_from_text t \<and>
               prefix (prompt_template (upper E (strip E (or_default (p_board payload) ''ICSE'')))
                         (strip E (or_default (p_class_level payload) ''10''))
                         (strip E (or_default (p_subject payload) ''General''))
                         (strip E (or_default (p_chapter payload) ''General''))
                         default_question) t \<and>
               sublist default_question t"
    using r p by blast
qed

text \<open>The claim as written leaves the board check out: with an empty question, one file and
  the board \<open>XYZ\<close> the request does not proceed, it is answered 400.\<close>

theorem empty_question_with_files_counterexample:
  "strip (test_env (\<lambda>n. ACTIVE) (Inr (\<lambda>n. Exhausted)))
     (or_default (p_question (empty_payload\<lparr>p_board := Some ''XYZ'',
       p_files := Some [attach ''notes.txt'' ''text/plain'' ''abc'']\<rparr>)) []) = [] \<and>
   p_files (empty_payload\<lparr>p_board := Some ''XYZ'',
       p_files := Some [attach ''notes.txt'' ''text/plain'' ''abc'']\<rparr>) \<noteq> Some [] \<and>
   ask_question (test_env (\<lambda>n. ACTIVE) (Inr (\<lambda>n. Exhausted)))
     (empty_payload\<lparr>p_board := Some ''XYZ'',
       p_files := Some [attach ''notes.txt'' ''text/plain'' ''abc'']\<rparr>) (0, [])
     = (Inl (HTTPException 400 ''Invalid board''), (0, []))"
  by (simp add: empty_payload_def text_defs ALLOWED_BOARDS_def ask_question_def Let_def
      or_value_def call_lower_def)

theorem question_or_file_required_witness:
  "text_or_falsy (p_model empty_payload) \<and>
   strip (test_env (\<lambda>n. ACTIVE) (Inr (\<lambda>n. Exhausted)))
     (or_default (p_question empty_payload) []) = [] \<and>
   (case p_files empty_payload of None \<Rightarrow> [] | Some fs \<Rightarrow> fs) = [] \<and>
   (\<exists>d. ask_question (test_env (\<lambda>n. ACTIVE) (Inr (\<lambda>n. Exhausted))) empty_payload (0, [])
         = (Inl (HTTPException 400 d), (0, []))) \<and>
   text_or_falsy (p_model (empty_payload\<lparr>p_question := Some ''  '',
       p_files := Some [attach ''notes.txt'' ''text/plain'' ''abc'']\<rparr>)) \<and>
   strip (test_env (\<lambda>n. ACTIVE) (Inr (\<lambda>n. Exhausted)))
     (or_default (p_question (empty_payload\<lparr>p_question := Some ''  '',
       p_files := Some [attach ''notes.txt'' ''text/plain'' ''abc'']\<rparr>)) []) = [] \<and>
   (case p_files (empty_payload\<lparr>p_question := Some ''  '',
       p_files := Some [attach ''notes.txt'' ''text/plain'' ''abc'']\<rparr>) of None \<Rightarrow> [] | Some fs \<Rightarrow> fs) \<noteq> [] \<and>
   upper (test_env (\<lambda>n. ACTIVE) (Inr (\<lambda>n. Exhausted)))
     (strip (test_env (\<lambda>n. ACTIVE) (Inr (\<lambda>n. Exhausted)))
        (or_default (p_board (empty_payload\<lparr>p_question := Some ''  '',
           p_files := Some [attach ''notes.txt'' ''text/plain'' ''abc'']\<rparr>)) ''ICSE''))
     \<in> ALLOWED_BOARDS \<and>
   (\<exists>c s' t. ask_question (test_env (\<lambda>n. ACTIVE) (Inr (\<lambda>n. Exhausted)))
        (empty_payload\<lparr>p_question := Some ''  '',
           p_files := Some [attach ''notes.txt'' ''text/plain'' ''abc'']\<rparr>) (0, []) = (Inr c, s') \<and>
      last (c_contents c) = Part_from_text t \<and> sublist default_question t)"
proof -
  let ?E = "test_env (\<lambda>n. ACTIVE) (Inr (\<lambda>n. Exhausted))"
  let ?P = "empty_payload\<lparr>p_question := Some ''  '',
       p_files := Some [attach ''notes.txt'' ''text/plain'' ''abc'']\<rparr>"
  have m1: "text_or_falsy (p_model empty_payload)"
    by (simp add: empty_payload_def text_or_falsy_def)
  have q1: "strip ?E (or_default (p_question empty_payload) []) = []"
    by (simp add: empty_payload_def text_defs)
  have f1: "(case p_files empty_payload of None \<Rightarrow> [] | Some fs \<Rightarrow> fs) = []"
    by (simp add: empty_payload_def)
  have m2: "text_or_falsy (p_model ?P)"
    by (simp add: empty_payload_def text_or_falsy_def)
  have q2: "strip ?E (or_default (p_question ?P) []) = []"
    by (simp add: empty_payload_def text_defs)
  have f2: "(case p_files ?P of None \<Rightarrow> [] | Some fs \<Rightarrow> fs) \<noteq> []"
    by (simp add: empty_payload_def)
  have b2: "upper ?E (strip ?E (or_default (p_board ?P) ''ICSE'')) \<in> ALLOWED_BOARDS"
    by (simp add: empty_payload_def text_defs ALLOWED_BOARDS_def)
  show ?thesis
    using m1 q1 f1 m2 q2 f2 b2
      question_or_file_required [OF m1 q1, of 0 "[]"]
      question_or_file_required [OF m2 q2, of 0 "[]"]
    by blast
qed

text \<open>
  Claim C10, as amended. A board that is absent, null or empty is replaced by ICSE: the
  handler does with the payload what it does with the same payload and the board ICSE, it
  does not answer ``Invalid board'', and when the model tag is text and there is a question
  or a file it returns its response, whose text part begins with the template rendered for
  the board ICSE. A model tag that is text, or a value that \<^verbatim>\<open>or\<close> replaces, and that is not
  \<open>t2\<close> once lowercased is treated as an absent one: the handler does with the payload what
  it does with the same payload and no model tag, and when the board passes the board check
  and there is a question or a file, it returns its response with the model
  \<open>gemini-2.5-flash-lite\<close>.
\<close>

theorem defaults_for_board_and_model:
  "(p_board payload = None \<or> p_board payload = Some [] \<longrightarrow>
      ask_question E payload s = ask_question E (payload\<lparr>p_board := Some ''ICSE''\<rparr>) s \<and>
      fst (ask_question E payload s) \<noteq> Inl (HTTPException 400 ''Invalid board'') \<and>
      (text_or_falsy (p_model payload) \<and>
       (strip E (or_default (p_question payload) []) \<noteq> [] \<or>
        (case p_files payload of None \<Rightarrow> [] | Some fs \<Rightarrow> fs) \<noteq> []) \<longrightarrow>
         (\<exists>c s' t. ask_question E payload s = (Inr c, s') \<and>
            last (c_contents c) = Part_from_text t \<and>
            prefix (prompt_template ''ICSE''
                      (strip E (or_default (p_class_level payload) ''10''))
                      (strip E (or_default (p_subject payload) ''General''))
                      (strip E (or_default (p_chapter payload) ''General''))
                      (if strip E (or_default (p_question payload) []) = [] then default_question
                       else strip E (or_default (p_question payload) []))) t))) \<and>
   (text_or_falsy (p_model payload) \<and> lower (model_tag (p_model payload)) \<noteq> ''t2'' \<longrightarrow>
      ask_question E payload s = ask_question E (payload\<lparr>p_model := None\<rparr>) s \<and>
      (upper E (strip E (or_default (p_board payload) ''ICSE'')) \<in> ALLOWED_BOARDS \<and>
       (strip E (or_default (p_question payload) []) \<noteq> [] \<or>
        (case p_files payload of None \<Rightarrow> [] | Some fs \<Rightarrow> fs) \<noteq> []) \<longrightarrow>
         (\<exists>c s'. ask_question E payload s = (Inr c, s') \<and>
            model_name c = ''gemini-2.5-flash-lite'')))"
proof (intro conjI impI)
  assume b: "p_board payload = None \<or> p_board payload = Some []"
  then have d: "or_default (p_board payload) ''ICSE'' = ''ICSE''"
    by (auto simp add: or_default_def)
  have d': "or_default (p_board (payload\<lparr>p_board := Some ''ICSE''\<rparr>)) ''ICSE'' = ''ICSE''"
    by (simp add: or_default_def)
  have sel: "p_class_level (payload\<lparr>p_board := Some ''ICSE''\<rparr>) = p_class_level payload"
    "p_subject (payload\<lparr>p_board := Some ''ICSE''\<rparr>) = p_subject payload"
    "p_chapter (payload\<lparr>p_board := Some ''ICSE''\<rparr>) = p_chapter payload"
    "p_question (payload\<lparr>p_board := Some ''ICSE''\<rparr>) = p_question payload"
    "p_model (payload\<lparr>p_board := Some ''ICSE''\<rparr>) = p_model payload"
    "p_files (payload\<lparr>p_board := Some ''ICSE''\<rparr>) = p_files payload"
    by simp_all
  show "ask_question E payload s = ask_question E (payload\<lparr>p_board := Some ''ICSE''\<rparr>) s"
    unfolding ask_question_def d d' sel by (rule refl)
  show "fst (ask_question E payload s) \<noteq> Inl (HTTPException 400 ''Invalid board'')"
  proof (cases "text_or_falsy (p_model payload)")
    case True
    show ?thesis
      using call_lower_text [OF True]
      by (simp add: ask_question_def d upper_strip_ICSE ALLOWED_BOARDS_def Let_def
          split: prod.splits)
  next
    case False
    from call_lower_no_text [OF False] obtain msg where
      "call_lower (or_value (p_model payload) (JString ''t1'')) = Inl (AttributeError msg)"
      by blast
    then show ?thesis
      by (simp add: ask_question_def Let_def)
  qed
  assume h: "text_or_falsy (p_model payload) \<and>
       (strip E (or_default (p_question payload) []) \<noteq> [] \<or>
        (case p_files payload of None \<Rightarrow> [] | Some fs \<Rightarrow> fs) \<noteq> [])"
  have v: "upper E (strip E (or_default (p_board payload) ''ICSE'')) \<in> ALLOWED_BOARDS"
    by (simp add: d upper_strip_ICSE ALLOWED_BOARDS_def)
  from ask_question_proceeds [OF _ v, of s] h
  obtain c s' t where r: "ask_question E payload s = (Inr c, s')"
    and l: "c_contents c = butlast (c_contents c) @ [Part_from_text t]"
    and p: "prefix (prompt_template (upper E (strip E (or_default (p_board payload) ''ICSE'')))
                      (strip E (or_default (p_class_level payload) ''10''))
                      (strip E (or_default (p_subject payload) ''General''))
                      (strip E (or_default (p_chapter payload) ''General''))
                      (if strip E (or_default (p_question payload) []) = [] then default_question
                       else strip E (or_default (p_question payload) []))) t"
    by blast
  from l have "last (c_contents c) = Part_from_text t"
    by (metis last_snoc)
  with r p show "\<exists>c s' t. ask_question E payload s = (Inr c, s') \<and>
            last (c_contents c) = Part_from_text t \<and>
            prefix (prompt_template ''ICSE''
                      (strip E (or_default (p_class_level payload) ''10''))
                      (strip E (or_default (p_subject payload) ''General''))
                      (strip E (or_default (p_chapter payload) ''General''))
                      (if strip E (or_default (p_question payload) []) = [] then default_question
                       else strip E (or_default (p_question payload) []))) t"
    by (auto simp add: d upper_strip_ICSE)
next
  assume m: "text_or_falsy (p_model payload) \<and> lower (model_tag (p_model payload)) \<noteq> ''t2''"
  have t1: "call_lower (or_value (p_model payload) (JString ''t1'')) =
            Inr (lower (model_tag (p_model payload)))"
    using m by (simp add: call_lower_text)
  have t2: "call_lower (or_value (p_model (payload\<lparr>p_model := None\<rparr>)) (JString ''t1'')) =
            Inr ''t1''"
    by (simp add: call_lower_def or_value_def lower_def lower_char_def)
  have sel: "p_board (payload\<lparr>p_model := None\<rparr>) = p_board payload"
    "p_class_level (payload\<lparr>p_model := None\<rparr>) = p_class_level payload"
    "p_subject (payload\<lparr>p_model := None\<rparr>) = p_subject payload"
    "p_chapter (payload\<lparr>p_model := None\<rparr>) = p_chapter payload"
    "p_question (payload\<lparr>p_model := None\<rparr>) = p_question payload"
    "p_files (payload\<lparr>p_model := None\<rparr>) = p_files payload"
    by simp_all
  have n1: "(lower (model_tag (p_model payload)) = ''t2'') = False"
    using m by simp
  have n2: "(''t1'' = ''t2'') = False"
    by simp
  show "ask_question E payload s = ask_question E (payload\<lparr>p_model := None\<rparr>) s"
    unfolding ask_question_def t1 t2 sel sum.case n1 n2 by (rule refl)
  assume v: "upper E (strip E (or_default (p_board payload) ''ICSE'')) \<in> ALLOWED_BOARDS \<and>
       (strip E (or_default (p_question payload) []) \<noteq> [] \<or>
        (case p_files payload of None \<Rightarrow> [] | Some fs \<Rightarrow> fs) \<noteq> [])"
  from ask_question_proceeds [of payload E s] m v
  show "\<exists>c s'. ask_question E payload s = (Inr c, s') \<and>
            model_name c = ''gemini-2.5-flash-lite''"
    by auto
qed

text \<open>The claim as written takes any model value: a payload whose model tag is the number 5
  raises \<^verbatim>\<open>AttributeError\<close> at \<^verbatim>\<open>.lower()\<close>, before the checks, and the request fails.\<close>

theorem model_tag_number_counterexample:
  "ask_question (test_env (\<lambda>n. ACTIVE) (Inr (\<lambda>n. Exhausted)))
     (empty_payload\<lparr>p_question := Some ''What is osmosis?'', p_model := Some (JInt 5)\<rparr>) (0, [])
     = (Inl (AttributeError
          ([CHR 0x27] @ ''int'' @ [CHR 0x27] @ '' object has no attribute '' @
           [CHR 0x27] @ ''lower'' @ [CHR 0x27])), (0, []))"
  by (simp add: empty_payload_def ask_question_def or_value_def call_lower_def Let_def)

theorem defaults_for_board_and_model_witness:
  "p_board (empty_payload\<lparr>p_board := Some [], p_question := Some ''What is osmosis?'',
       p_model := Some (JString ''T1'')\<rparr>) = Some [] \<and>
   fst (ask_question (test_env (\<lambda>n. ACTIVE) (Inr (\<lambda>n. Exhausted)))
     (empty_payload\<lparr>p_board := Some [], p_question := Some ''What is osmosis?'',
       p_model := Some (JString ''T1'')\<rparr>) (0, [])) \<noteq> Inl (HTTPException 400 ''Invalid board'') \<and>
   text_or_falsy (p_model (empty_payload\<lparr>p_board := Some [],
       p_question := Some ''What is osmosis?'', p_model := Some (JString ''T1'')\<rparr>)) \<and>
   lower (model_tag (p_model (empty_payload\<lparr>p_board := Some [],
       p_question := Some ''What is osmosis?'', p_model := Some (JString ''T1'')\<rparr>))) \<noteq> ''t2'' \<and>
   (\<exists>c s'. ask_question (test_env (\<lambda>n. ACTIVE) (Inr (\<lambda>n. Exhausted)))
       (empty_payload\<lparr>p_board := Some [], p_question := Some ''What is osmosis?'',
         p_model := Some (JString ''T1'')\<rparr>) (0, []) = (Inr c, s') \<and>
      model_name c = ''gemini-2.5-flash-lite'')"
proof -
  let ?E = "test_env (\<lambda>n. ACTIVE) (Inr (\<lambda>n. Exhausted))"
  let ?P = "empty_payload\<lparr>p_board := Some [], p_question := Some ''What is osmosis?'',
       p_model := Some (JString ''T1'')\<rparr>"
  have b: "p_board ?P = Some []"
    by simp
  have t: "text_or_falsy (p_model ?P)"
    by (simp add: text_or_falsy_def)
  have m: "lower (model_tag (p_model ?P)) \<noteq> ''t2''"
    by (simp add: model_tag_def text_defs)
  have v: "upper ?E (strip ?E (or_default (p_board ?P) ''ICSE'')) \<in> ALLOWED_BOARDS"
    by (simp add: text_defs ALLOWED_BOARDS_def)
  have q: "strip ?E (or_default (p_question ?P) []) \<noteq> []"
    by (simp add: text_defs)
  show ?thesis
    using b t m v q defaults_for_board_and_model [of ?P ?E "(0, [])"]
    by blast
qed

section \<open>Attachments\<close>

text \<open>
  Claim C5, as amended. Take an attachment whose mime type is not empty and not one of the
  six supported ones, and whose base64 payload is not empty. Its turn of the loop records
  the error string that names it and changes nothing else, the loop goes on with the
  attachments after it, and in every request that holds it and passes the checks the
  handler returns its response, whose text part ends with the note of the recorded errors,
  this one among them.
\<close>

theorem unsupported_mime_recorded:
  assumes "mimeType f = Some mime" and "mime \<noteq> []" and "mime \<notin> SUPPORTED_MIME_TYPES"
    and "base64 f = Some b" and "b \<noteq> []"
  shows "process_file E f a s =
           (a\<lparr>file_errors := file_errors a @
               [''File '' @ [CHR 0x27] @ (case att_name f of None \<Rightarrow> ''file'' | Some n \<Rightarrow> n) @
                [CHR 0x27] @ '' ('' @ mime @ '') is unsupported'']\<rparr>, s) \<and>
         process_files E (f # rest) a s =
           process_files E rest
             (a\<lparr>file_errors := file_errors a @
               [''File '' @ [CHR 0x27] @ (case att_name f of None \<Rightarrow> ''file'' | Some n \<Rightarrow> n) @
                [CHR 0x27] @ '' ('' @ mime @ '') is unsupported'']\<rparr>) s \<and>
         (text_or_falsy (p_model payload) \<and>
          upper E (strip E (or_default (p_board payload) ''ICSE'')) \<in> ALLOWED_BOARDS \<and>
          f \<in> set (case p_files payload of None \<Rightarrow> [] | Some fs \<Rightarrow> fs) \<longrightarrow>
            (\<exists>c s' t p errs. ask_question E payload s0 = (Inr c, s') \<and>
               last (c_contents c) = Part_from_text t \<and>
               t = p @ [NL, NL] @ ''[Note: Some files could not be processed: '' @
                   join ''; '' errs @ '']'' \<and>
               (''File '' @ [CHR 0x27] @ (case att_name f of None \<Rightarrow> ''file'' | Some n \<Rightarrow> n) @
                [CHR 0x27] @ '' ('' @ mime @ '') is unsupported'') \<in> set errs \<and>
               sublist (''File '' @ [CHR 0x27] @
                        (case att_name f of None \<Rightarrow> ''file'' | Some n \<Rightarrow> n) @
                        [CHR 0x27] @ '' ('' @ mime @ '') is unsupported'') t))"
proof -
  let ?msg = "''File '' @ [CHR 0x27] @ (case att_name f of None \<Rightarrow> ''file'' | Some n \<Rightarrow> n) @
                [CHR 0x27] @ '' ('' @ mime @ '') is unsupported''"
  have step: "\<And>a s. process_file E f a s = (a\<lparr>file_errors := file_errors a @ [?msg]\<rparr>, s)"
    using assms by (simp add: process_file_def unsupported_error_def Let_def)
  have req: "\<exists>c s' t p errs. ask_question E payload s0 = (Inr c, s') \<and>
               last (c_contents c) = Part_from_text t \<and>
               t = p @ [NL, NL] @ ''[Note: Some files could not be processed: '' @
                   join ''; '' errs @ '']'' \<and>
               ?msg \<in> set errs \<and> sublist ?msg t"
    if h: "text_or_falsy (p_model payload) \<and>
          upper E (strip E (or_default (p_board payload) ''ICSE'')) \<in> ALLOWED_BOARDS \<and>
          f \<in> set (case p_files payload of None \<Rightarrow> [] | Some fs \<Rightarrow> fs)"
  proof -
    let ?files = "case p_files payload of None \<Rightarrow> [] | Some fs \<Rightarrow> fs"
    from h have ne: "?files \<noteq> []" by (metis empty_iff list.set(1))
    from ask_question_run [of payload E s0] h ne obtain a s' q c where
      run: "process_files E ?files
             \<lparr>contents = [], uploaded_file_uris = [], file_errors = [],
              prompt_text = prompt_template (upper E (strip E (or_default (p_board payload) ''ICSE'')))
                     (strip E (or_default (p_class_level payload) ''10''))
                     (strip E (or_default (p_subject payload) ''General''))
                     (strip E (or_default (p_chapter payload) ''General'')) q\<rparr> s0 = (a, s')"
      and r: "ask_question E payload s0 = (Inr c, s')"
      and cs: "c_contents c = contents a @
                [Part_from_text (if file_errors a \<noteq> [] then prompt_text a @ errors_note (file_errors a)
                                 else prompt_text a)]"
      by blast
    from h have "f \<in> set ?files" by simp
    from process_files_records_error [OF this step] run
    have mem: "?msg \<in> set (file_errors a)" by (metis fst_conv)
    then have nonempty: "file_errors a \<noteq> []" by auto
    let ?t = "prompt_text a @ errors_note (file_errors a)"
    from cs nonempty have l: "last (c_contents c) = Part_from_text ?t" by simp
    have shape: "?t = prompt_text a @ [NL, NL] @ ''[Note: Some files could not be processed: '' @
                   join ''; '' (file_errors a) @ '']''"
      by (simp add: errors_note_def)
    from sublist_join [OF mem] have "sublist ?msg (join ''; '' (file_errors a))" .
    then have "sublist ?msg ((prompt_text a @ [NL, NL] @
                   ''[Note: Some files could not be processed: '') @
                   join ''; '' (file_errors a) @ '']'')"
      by (rule sublist_mid)
    then have "sublist ?msg ?t"
      unfolding shape by (simp only: append_assoc)
    with r l shape mem show ?thesis by blast
  qed
  from step [of a s] have one: "process_file E f a s = (a\<lparr>file_errors := file_errors a @ [?msg]\<rparr>, s)" .
  then have two: "process_files E (f # rest) a s =
           process_files E rest (a\<lparr>file_errors := file_errors a @ [?msg]\<rparr>) s"
    by simp
  from one two req show ?thesis by blast
qed

text \<open>The claim as written asks only for a mime type that is not empty: an attachment of an
  unsupported type whose base64 payload is empty is skipped before its type is looked at.
  No error is recorded, and the text part is the bare template, which does not name the
  file.\<close>

theorem unsupported_mime_skipped_counterexample:
  "mimeType (attach ''a.zip'' ''application/zip'' []) = Some ''application/zip'' \<and>
   ''application/zip'' \<noteq> [] \<and> ''application/zip'' \<notin> SUPPORTED_MIME_TYPES \<and>
   process_file (test_env (\<lambda>n. ACTIVE) (Inr (\<lambda>n. Exhausted)))
     (attach ''a.zip'' ''application/zip'' []) acc0 (0, []) = (acc0, (0, [])) \<and>
   file_errors acc0 = [] \<and>
   ask_question (test_env (\<lambda>n. ACTIVE) (Inr (\<lambda>n. Exhausted)))
     (empty_payload\<lparr>p_question := Some ''Q'',
        p_files := Some [attach ''a.zip'' ''application/zip'' []]\<rparr>) (0, [])
     = (Inr \<lparr>model_name = ''gemini-2.5-flash-lite'',
             c_contents = [Part_from_text
                (prompt_template ''ICSE'' ''10'' ''General'' ''General'' ''Q'')],
             c_uploaded_file_uris = []\<rparr>, (0, [])) \<and>
   \<not> sublist ''a.zip'' (prompt_template ''ICSE'' ''10'' ''General'' ''General'' ''Q'')"
proof -
  have "\<not> sublist ''a.zip'' (prompt_template ''ICSE'' ''10'' ''General'' ''General'' ''Q'')"
    by (simp add: prompt_template_def tpl_defs NL_def sublist_Cons_right)
  moreover have "process_file (test_env (\<lambda>n. ACTIVE) (Inr (\<lambda>n. Exhausted)))
     (attach ''a.zip'' ''application/zip'' []) acc0 (0, []) = (acc0, (0, []))"
    by (simp add: process_file_def attach_def)
  moreover have "ask_question (test_env (\<lambda>n. ACTIVE) (Inr (\<lambda>n. Exhausted)))
     (empty_payload\<lparr>p_question := Some ''Q'',
        p_files := Some [attach ''a.zip'' ''application/zip'' []]\<rparr>) (0, [])
     = (Inr \<lparr>model_name = ''gemini-2.5-flash-lite'',
             c_contents = [Part_from_text
                (prompt_template ''ICSE'' ''10'' ''General'' ''General'' ''Q'')],
             c_uploaded_file_uris = []\<rparr>, (0, []))"
    by (simp add: ask_question_def empty_payload_def attach_def text_defs ALLOWED_BOARDS_def
        or_value_def call_lower_def process_file_def Let_def)
  ultimately show ?thesis
    by (simp add: attach_def SUPPORTED_MIME_TYPES_def acc0_def)
qed

theorem unsupported_mime_recorded_witness:
  "mimeType (attach ''a.zip'' ''application/zip'' ''abc'') = Some ''application/zip'' \<and>
   ''application/zip'' \<noteq> [] \<and> ''application/zip'' \<notin> SUPPORTED_MIME_TYPES \<and>
   base64 (attach ''a.zip'' ''application/zip'' ''abc'') = Some ''abc'' \<and> ''abc'' \<noteq> [] \<and>
   process_file (test_env (\<lambda>n. ACTIVE) (Inr (\<lambda>n. Exhausted)))
     (attach ''a.zip'' ''application/zip'' ''abc'') acc0 (0, [])
     = (acc0\<lparr>file_errors := file_errors acc0 @
          [''File '' @ [CHR 0x27] @ ''a.zip'' @ [CHR 0x27] @
           '' (application/zip) is unsupported'']\<rparr>, (0, [])) \<and>
   (\<exists>c s' t. ask_question (test_env (\<lambda>n. ACTIVE) (Inr (\<lambda>n. Exhausted)))
       (empty_payload\<lparr>p_question := Some ''Q'',
          p_files := Some [attach ''a.zip'' ''application/zip'' ''abc'']\<rparr>) (0, []) = (Inr c, s') \<and>
      last (c_contents c) = Part_from_text t \<and>
      sublist (''File '' @ [CHR 0x27] @ ''a.zip'' @ [CHR 0x27] @
               '' (application/zip) is unsupported'') t)"
proof -
  let ?E = "test_env (\<lambda>n. ACTIVE) (Inr (\<lambda>n. Exhausted))"
  let ?f = "attach ''a.zip'' ''application/zip'' ''abc''"
  let ?P = "empty_payload\<lparr>p_question := Some ''Q'', p_files := Some [?f]\<rparr>"
  have m: "mimeType ?f = Some ''application/zip''" by (simp add: attach_def)
  have n: "''application/zip'' \<noteq> []" by simp
  have u: "''application/zip'' \<notin> SUPPORTED_MIME_TYPES" by (simp add: SUPPORTED_MIME_TYPES_def)
  have b: "base64 ?f = Some ''abc''" by (simp add: attach_def)
  have e: "''abc'' \<noteq> []" by simp
  have nm: "(case att_name ?f of None \<Rightarrow> ''file'' | Some n \<Rightarrow> n) = ''a.zip''"
    by (simp add: attach_def)
  have t: "text_or_falsy (p_model ?P)" by (simp add: empty_payload_def text_or_falsy_def)
  have v: "upper ?E (strip ?E (or_default (p_board ?P) ''ICSE'')) \<in> ALLOWED_BOARDS"
    by (simp add: empty_payload_def text_defs ALLOWED_BOARDS_def)
  have i: "?f \<in> set (case p_files ?P of None \<Rightarrow> [] | Some fs \<Rightarrow> fs)" by simp
  from unsupported_mime_recorded [OF m n u b e, of ?E acc0 "(0, [])" "[]" ?P "(0, [])"] t v i
  show ?thesis
    unfolding nm using m b by (simp add: SUPPORTED_MIME_TYPES_def) blast
qed

text \<open>
  Claim C6, as amended. Take a \<open>text/plain\<close> attachment whose base64 payload is not empty
  and decodes. Its turn of the loop appends to the prompt text the block that holds the
  decoded text, as the UTF-8 decoder with replacement gives it, between the two marker
  lines; it adds no part to the contents and changes nothing else. In every request that
  holds the attachment and passes the checks the handler returns its response, whose text
  part holds the block.
\<close>

theorem text_attachment_spliced:
  assumes "mimeType f = Some ''text/plain''" and "base64 f = Some b" and "b \<noteq> []"
    and "b64decode E b = Inr raw"
  shows "process_file E f a s =
           (a\<lparr>prompt_text := prompt_text a @ [NL, NL] @
               ''--- Content of '' @ (case att_name f of None \<Rightarrow> ''file'' | Some n \<Rightarrow> n) @
               '' ---'' @ [NL] @ decode_utf8_replace E raw @ [NL] @
               ''--- End of '' @ (case att_name f of None \<Rightarrow> ''file'' | Some n \<Rightarrow> n) @
               '' ---''\<rparr>, s) \<and>
         contents (fst (process_file E f a s)) = contents a \<and>
         (text_or_falsy (p_model payload) \<and>
          upper E (strip E (or_default (p_board payload) ''ICSE'')) \<in> ALLOWED_BOARDS \<and>
          f \<in> set (case p_files payload of None \<Rightarrow> [] | Some fs \<Rightarrow> fs) \<longrightarrow>
            (\<exists>c s' t. ask_question E payload s0 = (Inr c, s') \<and>
               last (c_contents c) = Part_from_text t \<and>
               sublist (''--- Content of '' @
                        (case att_name f of None \<Rightarrow> ''file'' | Some n \<Rightarrow> n) @
                        '' ---'' @ [NL] @ decode_utf8_replace E raw @ [NL] @
                        ''--- End of '' @ (case att_name f of None \<Rightarrow> ''file'' | Some n \<Rightarrow> n) @
                        '' ---'') t))"
proof -
  let ?name = "case att_name f of None \<Rightarrow> ''file'' | Some n \<Rightarrow> n"
  let ?blk = "''--- Content of '' @ ?name @ '' ---'' @ [NL] @ decode_utf8_replace E raw @ [NL] @
              ''--- End of '' @ ?name @ '' ---''"
  have sup: "''text/plain'' \<in> SUPPORTED_MIME_TYPES"
    by (simp add: SUPPORTED_MIME_TYPES_def)
  have step: "\<And>a s. process_file E f a s =
                (a\<lparr>prompt_text := prompt_text a @ ([NL, NL] @ ?blk)\<rparr>, s)"
    using assms sup by (simp add: process_file_def text_block_def Let_def)
  have req: "\<exists>c s' t. ask_question E payload s0 = (Inr c, s') \<and>
               last (c_contents c) = Part_from_text t \<and> sublist ?blk t"
    if h: "text_or_falsy (p_model payload) \<and>
          upper E (strip E (or_default (p_board payload) ''ICSE'')) \<in> ALLOWED_BOARDS \<and>
          f \<in> set (case p_files payload of None \<Rightarrow> [] | Some fs \<Rightarrow> fs)"
  proof -
    let ?files = "case p_files payload of None \<Rightarrow> [] | Some fs \<Rightarrow> fs"
    from h have ne: "?files \<noteq> []" by (metis empty_iff list.set(1))
    from ask_question_run [of payload E s0] h ne obtain a s' q c where
      run: "process_files E ?files
             \<lparr>contents = [], uploaded_file_uris = [], file_errors = [],
              prompt_text = prompt_template (upper E (strip E (or_default (p_board payload) ''ICSE'')))
                     (strip E (or_default (p_class_level payload) ''10''))
                     (strip E (or_default (p_subject payload) ''General''))
                     (strip E (or_default (p_chapter payload) ''General'')) q\<rparr> s0 = (a, s')"
      and r: "ask_question E payload s0 = (Inr c, s')"
      and cs: "c_contents c = contents a @
                [Part_from_text (if file_errors a \<noteq> [] then prompt_text a @ errors_note (file_errors a)
                                 else prompt_text a)]"
      by blast
    from h have "f \<in> set ?files" by simp
    from process_files_splices_block [OF this step] run
    have "sublist ([NL, NL] @ ?blk) (prompt_text a)" by (metis fst_conv)
    then have "sublist ?blk (prompt_text a)"
      by (rule sublist_drop_prefix)
    then have "sublist ?blk (if file_errors a \<noteq> [] then prompt_text a @ errors_note (file_errors a)
                                 else prompt_text a)"
      by (simp add: sublist_right)
    moreover from cs have "last (c_contents c) =
        Part_from_text (if file_errors a \<noteq> [] then prompt_text a @ errors_note (file_errors a)
                                 else prompt_text a)" by simp
    ultimately show ?thesis using r by blast
  qed
  from step [of a s] have one: "process_file E f a s =
      (a\<lparr>prompt_text := prompt_text a @ [NL, NL] @ ?blk\<rparr>, s)" by simp
  then have two: "contents (fst (process_file E f a s)) = contents a" by simp
  from one two req show ?thesis by blast
qed

text \<open>The claim as written asks only for a payload that decodes: the empty payload decodes,
  to no bytes, and the attachment is skipped before it is decoded. The text part is the bare
  template, with no marker line.\<close>

theorem empty_text_attachment_counterexample:
  "mimeType (attach ''notes.txt'' ''text/plain'' []) = Some ''text/plain'' \<and>
   b64decode (test_env (\<lambda>n. ACTIVE) (Inr (\<lambda>n. Exhausted))) [] = Inr [] \<and>
   ask_question (test_env (\<lambda>n. ACTIVE) (Inr (\<lambda>n. Exhausted)))
     (empty_payload\<lparr>p_question := Some ''Q'',
        p_files := Some [attach ''notes.txt'' ''text/plain'' []]\<rparr>) (0, [])
     = (Inr \<lparr>model_name = ''gemini-2.5-flash-lite'',
             c_contents = [Part_from_text
                (prompt_template ''ICSE'' ''10'' ''General'' ''General'' ''Q'')],
             c_uploaded_file_uris = []\<rparr>, (0, [])) \<and>
   \<not> sublist ''--- Content of ''
       (prompt_template ''ICSE'' ''10'' ''General'' ''General'' ''Q'')"
proof -
  have "\<not> sublist ''--- Content of ''
       (prompt_template ''ICSE'' ''10'' ''General'' ''General'' ''Q'')"
    by (simp add: prompt_template_def tpl_defs NL_def sublist_Cons_right)
  moreover have "ask_question (test_env (\<lambda>n. ACTIVE) (Inr (\<lambda>n. Exhausted)))
     (empty_payload\<lparr>p_question := Some ''Q'',
        p_files := Some [attach ''notes.txt'' ''text/plain'' []]\<rparr>) (0, [])
     = (Inr \<lparr>model_name = ''gemini-2.5-flash-lite'',
             c_contents = [Part_from_text
                (prompt_template ''ICSE'' ''10'' ''General'' ''General'' ''Q'')],
             c_uploaded_file_uris = []\<rparr>, (0, []))"
    by (simp add: ask_question_def empty_payload_def attach_def text_defs ALLOWED_BOARDS_def
        or_value_def call_lower_def process_file_def Let_def)
  ultimately show ?thesis
    by (simp add: attach_def test_env_def)
qed

theorem text_attachment_spliced_witness:
  "mimeType (attach ''notes.txt'' ''text/plain'' ''abc'') = Some ''text/plain'' \<and>
   base64 (attach ''notes.txt'' ''text/plain'' ''abc'') = Some ''abc'' \<and> ''abc'' \<noteq> [] \<and>
   b64decode (test_env (\<lambda>n. ACTIVE) (Inr (\<lambda>n. Exhausted))) ''abc'' = Inr (map of_char ''abc'') \<and>
   process_file (test_env (\<lambda>n. ACTIVE) (Inr (\<lambda>n. Exhausted)))
     (attach ''notes.txt'' ''text/plain'' ''abc'') acc0 (0, [])
     = (acc0\<lparr>prompt_text := prompt_text acc0 @ [NL, NL] @
          ''--- Content of notes.txt ---'' @ [NL] @ ''abc'' @ [NL] @
          ''--- End of notes.txt ---''\<rparr>, (0, [])) \<and>
   (\<exists>c s' t. ask_question (test_env (\<lambda>n. ACTIVE) (Inr (\<lambda>n. Exhausted)))
       (empty_payload\<lparr>p_files := Some [attach ''notes.txt'' ''text/plain'' ''abc'']\<rparr>) (0, [])
       = (Inr c, s') \<and>
      last (c_contents c) = Part_from_text t \<and>
      sublist (''--- Content of notes.txt ---'' @ [NL] @ ''abc'' @ [NL] @
               ''--- End of notes.txt ---'') t)"
proof -
  let ?E = "test_env (\<lambda>n. ACTIVE) (Inr (\<lambda>n. Exhausted))"
  let ?f = "attach ''notes.txt'' ''text/plain'' ''abc''"
  let ?P = "empty_payload\<lparr>p_files := Some [?f]\<rparr>"
  have m: "mimeType ?f = Some ''text/plain''" by (simp add: attach_def)
  have b: "base64 ?f = Some ''abc''" by (simp add: attach_def)
  have e: "''abc'' \<noteq> []" by simp
  have d: "b64decode ?E ''abc'' = Inr (map of_char ''abc'')" by (simp add: test_env_def)
  have nm: "(case att_name ?f of None \<Rightarrow> ''file'' | Some n \<Rightarrow> n) = ''notes.txt''"
    by (simp add: attach_def)
  have dec: "decode_utf8_replace ?E (map of_char ''abc'') = ''abc''"
    by (simp add: test_env_def char_of_def bit_iff_odd)
  have t: "text_or_falsy (p_model ?P)" by (simp add: empty_payload_def text_or_falsy_def)
  have v: "upper ?E (strip ?E (or_default (p_board ?P) ''ICSE'')) \<in> ALLOWED_BOARDS"
    by (simp add: empty_payload_def text_defs ALLOWED_BOARDS_def)
  have i: "?f \<in> set (case p_files ?P of None \<Rightarrow> [] | Some fs \<Rightarrow> fs)" by simp
  from text_attachment_spliced [OF m b e d, of acc0 "(0, [])" ?P "(0, [])"] t v i
  show ?thesis
    unfolding nm dec using m b d by simp
qed






section \<open>The stream relay\<close>

text \<open>
  Claim C1. Let the generation call return a stream whose first \<open>k\<close> pulls return chunks and
  whose next pull raises. The generator then ends, and what it has sent is one data frame
  for each non-empty text among these chunks, followed by one last frame: the end frame if
  there was such a text, and the error frame of the exception if there was none. In the
  first case no frame sent is an error frame. Moreover, in whatever way a run of the
  generator ends, no error frame comes after a data frame.
\<close>

theorem stream_failure_outcome:
  "(generate_content_stream E (model_name c) (c_contents c) w = (Inr rs, w1) \<and>
    (\<forall>j<k. is_chunk (rs j)) \<and> rs k = Raises e \<longrightarrow>
      (\<exists>s'. stream E c (w, log) =
         Some (map (data_frame (json_dumps E)) (forwarded rs k) @
                 [if forwarded rs k \<noteq> [] then end_frame else error_frame (str e)], s')) \<and>
      (forwarded rs k \<noteq> [] \<longrightarrow>
         \<not> is_error_frame end_frame \<and>
         (\<forall>t \<in> set (forwarded rs k). \<not> is_error_frame (data_frame (json_dumps E) t))) \<and>
      (forwarded rs k = [] \<longrightarrow> is_error_frame (error_frame (str e)))) \<and>
   (\<forall>frames s'. stream E c (w, log) = Some (frames, s') \<longrightarrow> no_error_after_data frames)"
proof (intro conjI impI allI)
  assume h: "generate_content_stream E (model_name c) (c_contents c) w = (Inr rs, w1) \<and>
    (\<forall>j<k. is_chunk (rs j)) \<and> rs k = Raises e"
  then show "\<exists>s'. stream E c (w, log) =
         Some (map (data_frame (json_dumps E)) (forwarded rs k) @
                 [if forwarded rs k \<noteq> [] then end_frame else error_frame (str e)], s')"
    using stream_on_raise [of E c w rs w1 k e log] by auto
next
  show "\<not> is_error_frame end_frame" by (simp add: end_frame_kind)
next
  show "\<forall>t \<in> set (forwarded rs k). \<not> is_error_frame (data_frame (json_dumps E) t)"
    by (simp add: data_frame_kind)
next
  show "is_error_frame (error_frame (str e))" by (simp add: error_frame_kind)
next
  fix frames s'
  assume "stream E c (w, log) = Some (frames, s')"
  then show "no_error_after_data frames" by (rule stream_no_error_after_data)
qed

theorem stream_failure_outcome_witness:
  "generate_content_stream
      (test_env (\<lambda>n. ACTIVE) (Inr (chunk_then_raise (Some ''Hi'') (Exception ''connection reset''))))
      (model_name closure0) (c_contents closure0) 0
     = (Inr (chunk_then_raise (Some ''Hi'') (Exception ''connection reset'')), 0) \<and>
   is_chunk (chunk_then_raise (Some ''Hi'') (Exception ''connection reset'') 0) \<and>
   chunk_then_raise (Some ''Hi'') (Exception ''connection reset'') 1 = Raises (Exception ''connection reset'') \<and>
   (\<exists>s'. stream
      (test_env (\<lambda>n. ACTIVE) (Inr (chunk_then_raise (Some ''Hi'') (Exception ''connection reset''))))
      closure0 (0, [])
     = Some ([''data: '' @ [CHR 0x22] @ ''Hi'' @ [CHR 0x22] @ [NL, NL], end_frame], s'))"
proof -
  let ?rs = "chunk_then_raise (Some ''Hi'') (Exception ''connection reset'')"
  let ?E = "test_env (\<lambda>n. ACTIVE) (Inr ?rs)"
  have g: "generate_content_stream ?E (model_name closure0) (c_contents closure0) 0 = (Inr ?rs, 0)"
    by (simp add: test_env_def)
  have c: "\<forall>j<1. is_chunk (?rs j)"
    by (simp add: chunk_then_raise_def is_chunk_def)
  have r: "?rs 1 = Raises (Exception ''connection reset'')"
    by (simp add: chunk_then_raise_def)
  have f: "forwarded ?rs 1 = [''Hi'']"
    by (simp add: forwarded_def chunk_then_raise_def or_default_def)
  have d: "data_frame (json_dumps ?E) ''Hi'' = ''data: '' @ [CHR 0x22] @ ''Hi'' @ [CHR 0x22] @ [NL, NL]"
    by (simp add: data_frame_def test_env_def)
  from stream_failure_outcome [of ?E closure0 0 ?rs 0 1 "Exception ''connection reset''" "[]"] g c r
  have "\<exists>s'. stream ?E closure0 (0, []) =
         Some (map (data_frame (json_dumps ?E)) (forwarded ?rs 1) @
                 [if forwarded ?rs 1 \<noteq> [] then end_frame else error_frame (str (Exception ''connection reset''))], s')"
    by blast
  then have "\<exists>s'. stream ?E closure0 (0, []) =
         Some ([''data: '' @ [CHR 0x22] @ ''Hi'' @ [CHR 0x22] @ [NL, NL], end_frame], s')"
    by (simp only: f d list.map append_Nil append_Cons) simp
  with g c r show ?thesis by simp
qed

text \<open>
  Claim C9. The relay fails when the generation call raises, or when a pull raises and no
  fragment has been sent before it. The generator then sends one frame and no other: an
  error frame. Its message is the rate-limit notice if the lowercased message of the
  exception contains \<open>quota\<close>; else the configuration notice if it contains \<open>api key\<close>; else
  the message of the exception itself.
\<close>

theorem stream_failed_single_error:
  assumes "generate_content_stream E (model_name c) (c_contents c) w = (Inl e, w1) \<or>
           (generate_content_stream E (model_name c) (c_contents c) w = (Inr rs, w1) \<and>
            (\<forall>j<k. is_chunk (rs j)) \<and> forwarded rs k = [] \<and> rs k = Raises e)"
  shows "\<exists>s'. stream E c (w, log) =
           Some ([''event: error'' @ [NL] @ ''data: '' @
                  (if sublist ''quota'' (lower (str e))
                   then ''API quota exceeded. Please try again later.''
                   else if sublist ''api key'' (lower (str e))
                   then ''API configuration error. Please contact support.''
                   else str e) @ [NL, NL]], s')"
proof -
  have fr: "error_frame (str e) = ''event: error'' @ [NL] @ ''data: '' @
                  (if sublist ''quota'' (lower (str e))
                   then ''API quota exceeded. Please try again later.''
                   else if sublist ''api key'' (lower (str e))
                   then ''API configuration error. Please contact support.''
                   else str e) @ [NL, NL]"
    by (simp add: error_frame_def)
  from assms have "\<exists>s'. stream E c (w, log) = Some ([error_frame (str e)], s')"
  proof
    assume "generate_content_stream E (model_name c) (c_contents c) w = (Inl e, w1)"
    then show ?thesis by (simp add: stream_def do_generate_def)
  next
    assume h: "generate_content_stream E (model_name c) (c_contents c) w = (Inr rs, w1) \<and>
            (\<forall>j<k. is_chunk (rs j)) \<and> forwarded rs k = [] \<and> rs k = Raises e"
    then show ?thesis
      using stream_on_raise [of E c w rs w1 k e log] by simp
  qed
  then show ?thesis by (simp only: fr)
qed

theorem stream_failed_single_error_witness:
  "generate_content_stream
      (test_env (\<lambda>n. ACTIVE) (Inr (chunk_then_raise None (Exception ''429: Quota exceeded''))))
      (model_name closure0) (c_contents closure0) 0
     = (Inr (chunk_then_raise None (Exception ''429: Quota exceeded'')), 0) \<and>
   is_chunk (chunk_then_raise None (Exception ''429: Quota exceeded'') 0) \<and>
   forwarded (chunk_then_raise None (Exception ''429: Quota exceeded'')) 1 = [] \<and>
   chunk_then_raise None (Exception ''429: Quota exceeded'') 1 = Raises (Exception ''429: Quota exceeded'') \<and>
   (\<exists>s'. stream
      (test_env (\<lambda>n. ACTIVE) (Inr (chunk_then_raise None (Exception ''429: Quota exceeded''))))
      closure0 (0, [])
     = Some ([''event: error'' @ [NL] @ ''data: API quota exceeded. Please try again later.'' @
              [NL, NL]], s'))"
proof -
  let ?e = "Exception ''429: Quota exceeded''"
  let ?rs = "chunk_then_raise None ?e"
  let ?E = "test_env (\<lambda>n. ACTIVE) (Inr ?rs)"
  have g: "generate_content_stream ?E (model_name closure0) (c_contents closure0) 0 = (Inr ?rs, 0)"
    by (simp add: test_env_def)
  have c: "\<forall>j<1. is_chunk (?rs j)"
    by (simp add: chunk_then_raise_def is_chunk_def)
  have r: "?rs 1 = Raises ?e"
    by (simp add: chunk_then_raise_def)
  have f: "forwarded ?rs 1 = []"
    by (simp add: forwarded_def chunk_then_raise_def or_default_def)
  have q: "sublist ''quota'' (lower (str ?e))"
    by (simp add: text_defs sublist_Cons_right)
  have "\<exists>s'. stream ?E closure0 (0, []) =
           Some ([''event: error'' @ [NL] @ ''data: '' @
                  (if sublist ''quota'' (lower (str ?e))
                   then ''API quota exceeded. Please try again later.''
                   else if sublist ''api key'' (lower (str ?e))
                   then ''API configuration error. Please contact support.''
                   else str ?e) @ [NL, NL]], s')"
    using stream_failed_single_error [of ?E closure0 0 ?e 0 ?rs 1 "[]"] g c r f by blast
  then have "\<exists>s'. stream ?E closure0 (0, []) =
           Some ([''event: error'' @ [NL] @ ''data: API quota exceeded. Please try again later.'' @
              [NL, NL]], s')"
    by (simp only: q if_True) simp
  with g c r f show ?thesis by simp
qed
section \<open>Cleanup\<close>

text \<open>
  Claim C2 asks for one delete, after the stream has ended, for each remote file that an
  upload has returned. The generator deletes the names the handler has recorded, each once,
  whatever each delete does (\<open>stream_log\<close>). But the handler records a name only after
  \<^verbatim>\<open>Part.from_uri\<close> has built its part, inside the same \<^verbatim>\<open>try\<close>: when that call raises, the
  upload has returned the name, the bytes go inline, the name is not recorded and no delete
  is ever issued for it. The run below is such a request: a PDF whose upload is active at
  once, a library that rejects the call of \<^verbatim>\<open>Part.from_uri\<close>, a stream that ends normally.
  Its log marks the name as acquired and holds no delete.
\<close>

theorem acquired_handle_not_deleted:
  "api_ask uri_rejecting_env pdf_payload (0, [])
   = Some (Inr [end_frame],
       (0, [Upload (map of_char ''abc'') ''application/pdf'' ''a.pdf'',
            Acquired ''files/a.pdf'',
            Generate ''gemini-2.5-flash-lite''
              [Part_inline (map of_char ''abc'') ''application/pdf'',
               Part_from_text (prompt_template ''ICSE'' ''10'' ''General'' ''General'' default_question)]])) \<and>
   acquired_of
     [Upload (map of_char ''abc'') ''application/pdf'' ''a.pdf'',
      Acquired ''files/a.pdf'',
      Generate ''gemini-2.5-flash-lite''
        [Part_inline (map of_char ''abc'') ''application/pdf'',
         Part_from_text (prompt_template ''ICSE'' ''10'' ''General'' ''General'' default_question)]]
     = [''files/a.pdf''] \<and>
   deleted_of
     [Upload (map of_char ''abc'') ''application/pdf'' ''a.pdf'',
      Acquired ''files/a.pdf'',
      Generate ''gemini-2.5-flash-lite''
        [Part_inline (map of_char ''abc'') ''application/pdf'',
         Part_from_text (prompt_template ''ICSE'' ''10'' ''General'' ''General'' default_question)]]
     = []"
  by (simp add: api_ask_def ask_question_def pdf_payload_def empty_payload_def attach_def
      text_defs ALLOWED_BOARDS_def SUPPORTED_MIME_TYPES_def process_file_def
      upload_file_to_gemini_def upload_and_wait_def do_upload_def do_get_def acquire_def
      max_attempts_def uri_rejecting_env_def test_env_def stream_def do_generate_def
      do_delete_def or_value_def call_lower_def Part_from_uri_def Part_from_bytes_def
      inline_fallback_def pull_loop_Exhausted eval_nat_numeral Let_def)

end
